theory Spec2Isabelle
  imports Complex_Main
begin

section \<open>Bounding volumes of OpenVRML (bounding\_volume.cpp)\<close>

text \<open>
  The embedding follows \<^verbatim>\<open>libopenvrml/openvrml/bounding_volume.cpp\<close>. A member function
  that mutates \<^verbatim>\<open>*this\<close> takes the sphere and returns the new one. Comparisons, the two
  radius sentinels and the order of the early returns are those of the source.

  The source computes in the C++ type \<^verbatim>\<open>float\<close>. The functions are embedded twice.
  The first embedding reads a \<^verbatim>\<open>float\<close> as a real number and its arithmetic as exact; it
  serves the results that rest on the sentinels, on the order of the tests, and on values
  that the operations involved represent without rounding. The second embedding, in the
  section on single precision, rounds every operation as the machine does; it serves the
  results on the two merges, on \<^verbatim>\<open>enclose\<close> and on \<^verbatim>\<open>ortho_transform\<close> that depend on
  the rounding.

  Three things the file uses are declared elsewhere in the library (private.h,
  basetypes.h, frustum.h) and are not part of the sources at hand:
  \<^item> \<^verbatim>\<open>openvrml_::fequal<float>\<close>, the tolerance comparison. It is a parameter
    \<open>fequal\<close> of every function that calls it.
  \<^item> \<^verbatim>\<open>vec3f\<close> and \<^verbatim>\<open>mat4f\<close> with their operators; they are modelled from the
    specification's description of the point and transform types.
  \<^item> \<^verbatim>\<open>frustum\<close>, modelled from the specification's list of its fields.
\<close>

subsection \<open>Points, matrices, frusta\<close>

text \<open>Modelled from the spec: the point type \<^verbatim>\<open>vec3f\<close> of basetypes.h, "3 floating-point
  components, supporting subtraction, dot product, scalar division, length".\<close>

record vec3f =
  vx :: real
  vy :: real
  vz :: real

definition vec3f_minus :: "vec3f \<Rightarrow> vec3f \<Rightarrow> vec3f" where
  "vec3f_minus a b = \<lparr>vx = vx a - vx b, vy = vy a - vy b, vz = vz a - vz b\<rparr>"

definition vec3f_plus :: "vec3f \<Rightarrow> vec3f \<Rightarrow> vec3f" where
  "vec3f_plus a b = \<lparr>vx = vx a + vx b, vy = vy a + vy b, vz = vz a + vz b\<rparr>"

definition vec3f_div :: "vec3f \<Rightarrow> real \<Rightarrow> vec3f" where
  "vec3f_div a k = \<lparr>vx = vx a / k, vy = vy a / k, vz = vz a / k\<rparr>"

definition dot :: "vec3f \<Rightarrow> vec3f \<Rightarrow> real" where
  "dot a b = vx a * vx b + vy a * vy b + vz a * vz b"

definition vec3f_length :: "vec3f \<Rightarrow> real" where
  "vec3f_length a = sqrt (dot a a)"

text \<open>Modelled from the spec: the transform type \<^verbatim>\<open>mat4f\<close> of basetypes.h, a "4x4
  floating-point matrix, row/column accessible"; \<open>t i j\<close> is \<^verbatim>\<open>t[i][j]\<close>.\<close>

type_synonym mat4f = "nat \<Rightarrow> nat \<Rightarrow> real"

text \<open>Modelled from the spec: \<^verbatim>\<open>vec3f::operator*=(const mat4f &)\<close> of basetypes.h, which
  "applies the transform to the center point directly (translation + rotation move the
  center correctly)". The point is a row vector multiplied from the left, so the
  translation is the fourth row of the matrix; this matches the source's reading of
  \<^verbatim>\<open>(t[0][0], t[1][0], t[2][0])\<close> as the coefficients of the new x coordinate.\<close>

definition vec3f_times_mat4f :: "vec3f \<Rightarrow> mat4f \<Rightarrow> vec3f" where
  "vec3f_times_mat4f v t =
     \<lparr>vx = vx v * t 0 0 + vy v * t 1 0 + vz v * t 2 0 + t 3 0,
      vy = vx v * t 0 1 + vy v * t 1 1 + vz v * t 2 1 + t 3 1,
      vz = vx v * t 0 2 + vy v * t 1 2 + vz v * t 2 2 + t 3 2\<rparr>"

text \<open>Modelled from the spec: the \<^verbatim>\<open>frustum\<close> of frustum.h, "fields z\_near, z\_far
  (scalars) and four plane arrays top\_plane, bot\_plane, left\_plane, right\_plane, each
  [Nx, Ny, Nz, D]". An array is a function of its index.\<close>

record frustum =
  z_near :: real
  z_far :: real
  top_plane :: "nat \<Rightarrow> real"
  bot_plane :: "nat \<Rightarrow> real"
  left_plane :: "nat \<Rightarrow> real"
  right_plane :: "nat \<Rightarrow> real"

text \<open>\<^verbatim>\<open>std::numeric_limits<float>::max()\<close>, the largest finite IEEE single.\<close>

definition float_max :: real where
  "float_max = (2 ^ 24 - 1) * 2 ^ 104"

subsection \<open>The bounding sphere\<close>

datatype intersection = inside | outside | partial

record bounding_sphere =
  center :: vec3f
  radius :: real

text \<open>The constructor \<^verbatim>\<open>bounding_sphere()\<close> sets the radius to the flag \<open>-1\<close>; the
  center is the default \<^verbatim>\<open>vec3f\<close>, the origin.\<close>

definition bounding_sphere_init :: bounding_sphere where
  "bounding_sphere_init = \<lparr>center = \<lparr>vx = 0, vy = 0, vz = 0\<rparr>, radius = -1\<rparr>"

definition maximize :: "bounding_sphere \<Rightarrow> bounding_sphere" where
  "maximize s = s\<lparr>radius := float_max, center := \<lparr>vx = 0, vy = 0, vz = 0\<rparr>\<rparr>"

definition maximized :: "bounding_sphere \<Rightarrow> bool" where
  "maximized s = (if radius s = float_max then True else False)"

definition sphere_plane_distance :: "bounding_sphere \<Rightarrow> (nat \<Rightarrow> real) \<Rightarrow> real \<Rightarrow> real" where
  "sphere_plane_distance bs N D =
     (let c = center bs;
          d = N 0 * vx c + N 1 * vy c + N 2 * vz c - D
      in d)"

definition intersect_frustum :: "bounding_sphere \<Rightarrow> frustum \<Rightarrow> intersection" where
  "intersect_frustum s f =
     (if maximized s then partial
      else if radius s = -1 then partial
      else
        let code = inside;
            znear = - z_near f;
            d = znear - vz (center s)
        in if d < - radius s then outside
        else
        let code = (if d < radius s then partial else code);
            zfar = - z_far f;
            d = vz (center s) - zfar
        in if d < - radius s then outside
        else
        let code = (if d < radius s then partial else code);
            d = sphere_plane_distance s (top_plane f) (top_plane f 3)
        in if d < - radius s then outside
        else
        let code = (if d < radius s then partial else code);
            d = sphere_plane_distance s (bot_plane f) (bot_plane f 3)
        in if d < - radius s then outside
        else
        let code = (if d < radius s then partial else code);
            d = sphere_plane_distance s (left_plane f) (left_plane f 3)
        in if d < - radius s then outside
        else
        let code = (if d < radius s then partial else code);
            d = sphere_plane_distance s (right_plane f) (right_plane f 3)
        in if d < - radius s then outside
        else
        let code = (if d < radius s then partial else code)
        in code)"

text \<open>\<^verbatim>\<open>extend(const vec3f &)\<close>. The quotient \<open>(cr - r0) / dn\<close> is reached with
  \<open>dn = 0\<close> only when \<open>fequal 0 0\<close> is false; the C++ quotient is then not a number,
  and no result below evaluates this embedding there.\<close>

definition extend_vec3f ::
  "(real \<Rightarrow> real \<Rightarrow> bool) \<Rightarrow> bounding_sphere \<Rightarrow> vec3f \<Rightarrow> bounding_sphere" where
  "extend_vec3f fequal s p =
     (if maximized s then s
      else if radius s = -1 then s\<lparr>radius := 0, center := p\<rparr>
      else
        let x0 = vx (center s); y0 = vy (center s); z0 = vz (center s);
            r0 = radius s;
            x1 = vx p; y1 = vy p; z1 = vz p;
            xn = x1 - x0; yn = y1 - y0; zn = z1 - z0;
            dn = sqrt (xn * xn + yn * yn + zn * zn)
        in if fequal dn 0 then s
        else if dn < r0 then s
        else
          let cr = (dn + r0) / 2;
              tmp = (cr - r0) / dn;
              cx = x0 + xn * tmp;
              cy = y0 + yn * tmp;
              cz = z0 + zn * tmp
          in s\<lparr>radius := cr, center := \<lparr>vx = cx, vy = cy, vz = cz\<rparr>\<rparr>)"

text \<open>\<^verbatim>\<open>extend(const axis_aligned_bounding_box &)\<close> has an empty body. The box class is
  a placeholder declared in bounding\_volume.h; its representation is left open as the
  type parameter \<open>'box\<close>.\<close>

definition extend_axis_aligned_bounding_box :: "bounding_sphere \<Rightarrow> 'box \<Rightarrow> bounding_sphere" where
  "extend_axis_aligned_bounding_box s bbox = s"

text \<open>\<^verbatim>\<open>extend(const bounding_sphere &)\<close>; \<^verbatim>\<open>*this = b\<close> is the result \<open>b\<close>. The
  quotient by \<open>dn\<close> is treated as in \<open>extend_vec3f\<close>.\<close>

definition extend_bounding_sphere ::
  "(real \<Rightarrow> real \<Rightarrow> bool) \<Rightarrow> bounding_sphere \<Rightarrow> bounding_sphere \<Rightarrow> bounding_sphere" where
  "extend_bounding_sphere fequal s b =
     (if maximized s then s
      else if maximized b then maximize s
      else if radius b = -1 then s
      else if radius s = -1 then b
      else
        let x0 = vx (center s); y0 = vy (center s); z0 = vz (center s);
            r0 = radius s;
            x1 = vx (center b); y1 = vy (center b); z1 = vz (center b);
            r1 = radius b;
            xn = x1 - x0; yn = y1 - y0; zn = z1 - z0;
            dn = sqrt (xn * xn + yn * yn + zn * zn)
        in if fequal dn 0 then s
        else if dn + r1 < r0 then s
        else if dn + r0 < r1 then b
        else
          let cr = (dn + r0 + r1) / 2;
              tmp = (cr - r0) / dn;
              cx = x0 + xn * tmp;
              cy = y0 + yn * tmp;
              cz = z0 + zn * tmp
          in s\<lparr>radius := cr, center := \<lparr>vx = cx, vy = cy, vz = cz\<rparr>\<rparr>)"

text \<open>\<^verbatim>\<open>extend(const bounding_volume &)\<close> tests the dynamic type of its argument; the
  two subclasses of \<^verbatim>\<open>bounding_volume\<close> are the two constructors.\<close>

datatype 'box bounding_volume = Sphere bounding_sphere | Box 'box

definition extend_bounding_volume ::
  "(real \<Rightarrow> real \<Rightarrow> bool) \<Rightarrow> bounding_sphere \<Rightarrow> 'box bounding_volume \<Rightarrow> bounding_sphere" where
  "extend_bounding_volume fequal s bv =
     (case bv of
        Sphere bs \<Rightarrow> extend_bounding_sphere fequal s bs
      | Box ab \<Rightarrow> extend_axis_aligned_bounding_box s ab)"

text \<open>\<^verbatim>\<open>enclose\<close>: the scan for the six extremal points keeps two arrays of three
  pointers into the vector; the model keeps the points they refer to.\<close>

definition scan_point ::
  "vec3f \<Rightarrow> (nat \<Rightarrow> vec3f) \<times> (nat \<Rightarrow> vec3f) \<Rightarrow> (nat \<Rightarrow> vec3f) \<times> (nat \<Rightarrow> vec3f)" where
  "scan_point p_i mm =
     (let min_p = fst mm; max_p = snd mm;
          min_p = (if vx p_i < vx (min_p 0) then min_p(0 := p_i) else min_p);
          min_p = (if vy p_i < vy (min_p 1) then min_p(1 := p_i) else min_p);
          min_p = (if vz p_i < vz (min_p 2) then min_p(2 := p_i) else min_p);
          max_p = (if vx p_i > vx (max_p 0) then max_p(0 := p_i) else max_p);
          max_p = (if vy p_i > vy (max_p 1) then max_p(1 := p_i) else max_p);
          max_p = (if vz p_i > vz (max_p 2) then max_p(2 := p_i) else max_p)
      in (min_p, max_p))"

definition enclose ::
  "(real \<Rightarrow> real \<Rightarrow> bool) \<Rightarrow> bounding_sphere \<Rightarrow> vec3f list \<Rightarrow> bounding_sphere" where
  "enclose fequal this points =
     (let s = bounding_sphere_init in
      case points of
        [] \<Rightarrow> s
      | p0 # rest \<Rightarrow>
          let mm = fold scan_point rest (\<lambda>k. p0, \<lambda>k. p0);
              min_p = fst mm; max_p = snd mm;
              span = vec3f_minus (max_p 0) (min_p 0);
              dx = dot span span;
              span = vec3f_minus (max_p 1) (min_p 1);
              dy = dot span span;
              span = vec3f_minus (max_p 2) (min_p 2);
              dz = dot span span;
              ms = (min_p 0, max_p 0, dx);
              ms = (if dy > snd (snd ms) then (min_p 1, max_p 1, dy) else ms);
              ms = (if dz > snd (snd ms) then (min_p 2, max_p 2, dz) else ms);
              max_span0 = fst ms; max_span1 = fst (snd ms);
              s = s\<lparr>center := vec3f_div (vec3f_plus max_span0 max_span1) 2\<rparr>;
              s = s\<lparr>radius := sqrt (dot (center s) (center s))\<rparr>
          in fold (\<lambda>p s. extend_vec3f fequal s p) points s)"

definition ortho_transform :: "bounding_sphere \<Rightarrow> mat4f \<Rightarrow> bounding_sphere" where
  "ortho_transform s t =
     (if maximized s then s
      else if radius s = -1 then s
      else
        let s = s\<lparr>center := vec3f_times_mat4f (center s) t\<rparr>
        in s\<lparr>radius := radius s * vec3f_length \<lparr>vx = t 0 0, vy = t 1 0, vz = t 2 0\<rparr>\<rparr>)"

definition transform :: "bounding_sphere \<Rightarrow> mat4f \<Rightarrow> bounding_sphere" where
  "transform s t =
     (if maximized s then s
      else if radius s = -1 then s
      else
        let s = s\<lparr>center := vec3f_times_mat4f (center s) t\<rparr>;
            x_scale_v = \<lparr>vx = t 0 0, vy = t 1 0, vz = t 2 0\<rparr>;
            y_scale_v = \<lparr>vx = t 0 1, vy = t 1 1, vz = t 2 1\<rparr>;
            z_scale_v = \<lparr>vx = t 0 2, vy = t 1 2, vz = t 2 2\<rparr>;
            scale_x = vec3f_length x_scale_v;
            scale_y = vec3f_length y_scale_v;
            scale_z = vec3f_length z_scale_v;
            max_scale = scale_x;
            max_scale = (if scale_y > max_scale then scale_y else max_scale);
            max_scale = (if scale_z > max_scale then scale_z else max_scale)
        in s\<lparr>radius := radius s * max_scale\<rparr>)"

subsection \<open>Sequences of public operations\<close>

text \<open>The public mutators of a sphere, as the values of a datatype, and the sphere that
  a sequence of calls leaves, starting from the constructor's.\<close>

datatype 'box operation =
    Extend "'box bounding_volume"
  | ExtendPoint vec3f
  | Enclose "vec3f list"
  | Transform mat4f
  | OrthoTransform mat4f
  | Maximize

fun apply_operation ::
  "(real \<Rightarrow> real \<Rightarrow> bool) \<Rightarrow> 'box operation \<Rightarrow> bounding_sphere \<Rightarrow> bounding_sphere" where
  "apply_operation fequal (Extend bv) s = extend_bounding_volume fequal s bv"
| "apply_operation fequal (ExtendPoint p) s = extend_vec3f fequal s p"
| "apply_operation fequal (Enclose points) s = enclose fequal s points"
| "apply_operation fequal (Transform t) s = transform s t"
| "apply_operation fequal (OrthoTransform t) s = ortho_transform s t"
| "apply_operation fequal Maximize s = maximize s"

definition run :: "(real \<Rightarrow> real \<Rightarrow> bool) \<Rightarrow> 'box operation list \<Rightarrow> bounding_sphere" where
  "run fequal ops = fold (apply_operation fequal) ops bounding_sphere_init"

fun is_enclose :: "'box operation \<Rightarrow> bool" where
  "is_enclose (Enclose points) = True"
| "is_enclose other = False"

subsection \<open>Geometric vocabulary of the claims\<close>

text \<open>The distance of two points, written as the source computes \<^verbatim>\<open>dn\<close>.\<close>

definition distance :: "vec3f \<Rightarrow> vec3f \<Rightarrow> real" where
  "distance a b =
     sqrt ((vx b - vx a) * (vx b - vx a) + (vy b - vy a) * (vy b - vy a)
           + (vz b - vz a) * (vz b - vz a))"

text \<open>The point at fraction \<open>k\<close> of the way from \<open>a\<close> to \<open>b\<close>.\<close>

definition toward :: "vec3f \<Rightarrow> vec3f \<Rightarrow> real \<Rightarrow> vec3f" where
  "toward a b k =
     \<lparr>vx = vx a + (vx b - vx a) * k, vy = vy a + (vy b - vy a) * k,
      vz = vz a + (vz b - vz a) * k\<rparr>"

text \<open>A sphere encloses a point that is no further from its center than its radius, and
  encloses a sphere whose farthest point is.\<close>

definition encloses_point :: "bounding_sphere \<Rightarrow> vec3f \<Rightarrow> bool" where
  "encloses_point s p = (distance (center s) p \<le> radius s)"

definition encloses_sphere :: "bounding_sphere \<Rightarrow> bounding_sphere \<Rightarrow> bool" where
  "encloses_sphere s b = (distance (center s) (center b) + radius b \<le> radius s)"

section \<open>The functions in single precision\<close>

text \<open>
  The two merges, \<^verbatim>\<open>enclose\<close> and \<^verbatim>\<open>ortho_transform\<close> are embedded a second time, with
  the arithmetic of the C++ type \<^verbatim>\<open>float\<close>: IEEE 754 binary32, every operation on
  \<^verbatim>\<open>float\<close> operands rounded once to the nearest representable number, ties to even, as
  on a machine that evaluates \<^verbatim>\<open>float\<close> expressions in that type. The names carry the
  suffix \<open>_sp\<close>; the control flow is that of the source, as in the first embedding.
\<close>

subsection \<open>Single-precision numbers\<close>

text \<open>A \<^verbatim>\<open>float\<close> is a finite number, an infinity or a NaN. Zero carries no sign; where the
  sign of a zero would matter, as a divisor, it is read as \<open>+0\<close>.\<close>

datatype float = Finite real | PlusInf | MinusInf | NaN

text \<open>The number of binary digits of a natural number.\<close>

fun bit_length :: "nat \<Rightarrow> nat" where
  "bit_length n = (if n = 0 then 0 else Suc (bit_length (n div 2)))"

declare bit_length.simps [simp del]

text \<open>Rounding to the nearest integer, a tie to the even one.\<close>

definition round_even :: "real \<Rightarrow> int" where
  "round_even x =
     (let f = \<lfloor>x\<rfloor> in
      if x - of_int f < 1 / 2 then f
      else if 1 / 2 < x - of_int f then f + 1
      else if even f then f else f + 1)"

text \<open>Rounding of a real number to single precision. The magnitude is counted in units
  of \<open>2^-149\<close>, the smallest positive \<^verbatim>\<open>float\<close>; \<open>s\<close> is the number of binary digits beyond
  the 24 of the significand, so \<open>2^s\<close> units is the spacing of the floats around the
  number (one unit in the subnormal range). A rounded magnitude of \<open>2^128\<close> or more
  overflows to an infinity.\<close>

definition single :: "real \<Rightarrow> float" where
  "single x =
     (let y = \<bar>x\<bar> * 2 ^ 149;
          s = bit_length (nat \<lfloor>y\<rfloor>) - 24;
          a = of_int (round_even (y / 2 ^ s)) * 2 ^ s / 2 ^ 149
      in if 2 ^ 128 \<le> a then (if x < 0 then MinusInf else PlusInf)
         else Finite (if x < 0 then - a else a))"

text \<open>The arithmetic of the source on \<^verbatim>\<open>float\<close> operands: the exact result rounded
  to single precision, and the IEEE results for infinities and NaN.\<close>

fun fneg :: "float \<Rightarrow> float" where
  "fneg (Finite a) = Finite (- a)"
| "fneg PlusInf = MinusInf"
| "fneg MinusInf = PlusInf"
| "fneg NaN = NaN"

fun fadd :: "float \<Rightarrow> float \<Rightarrow> float" where
  "fadd (Finite a) (Finite b) = single (a + b)"
| "fadd (Finite a) PlusInf = PlusInf"
| "fadd (Finite a) MinusInf = MinusInf"
| "fadd PlusInf (Finite b) = PlusInf"
| "fadd PlusInf PlusInf = PlusInf"
| "fadd PlusInf MinusInf = NaN"
| "fadd MinusInf (Finite b) = MinusInf"
| "fadd MinusInf MinusInf = MinusInf"
| "fadd MinusInf PlusInf = NaN"
| "fadd NaN b = NaN"
| "fadd a NaN = NaN"

definition fsub :: "float \<Rightarrow> float \<Rightarrow> float" where
  "fsub a b = fadd a (fneg b)"

fun fmul :: "float \<Rightarrow> float \<Rightarrow> float" where
  "fmul (Finite a) (Finite b) = single (a * b)"
| "fmul (Finite a) PlusInf = (if a = 0 then NaN else if 0 < a then PlusInf else MinusInf)"
| "fmul (Finite a) MinusInf = (if a = 0 then NaN else if 0 < a then MinusInf else PlusInf)"
| "fmul PlusInf (Finite b) = (if b = 0 then NaN else if 0 < b then PlusInf else MinusInf)"
| "fmul MinusInf (Finite b) = (if b = 0 then NaN else if 0 < b then MinusInf else PlusInf)"
| "fmul PlusInf PlusInf = PlusInf"
| "fmul PlusInf MinusInf = MinusInf"
| "fmul MinusInf PlusInf = MinusInf"
| "fmul MinusInf MinusInf = PlusInf"
| "fmul NaN b = NaN"
| "fmul a NaN = NaN"

fun fdiv :: "float \<Rightarrow> float \<Rightarrow> float" where
  "fdiv (Finite a) (Finite b) =
     (if b = 0 then (if a = 0 then NaN else if 0 < a then PlusInf else MinusInf)
      else single (a / b))"
| "fdiv (Finite a) PlusInf = Finite 0"
| "fdiv (Finite a) MinusInf = Finite 0"
| "fdiv PlusInf (Finite b) = (if 0 \<le> b then PlusInf else MinusInf)"
| "fdiv MinusInf (Finite b) = (if 0 \<le> b then MinusInf else PlusInf)"
| "fdiv PlusInf PlusInf = NaN"
| "fdiv PlusInf MinusInf = NaN"
| "fdiv MinusInf PlusInf = NaN"
| "fdiv MinusInf MinusInf = NaN"
| "fdiv NaN b = NaN"
| "fdiv a NaN = NaN"

text \<open>\<^verbatim>\<open>float(sqrt(e))\<close> for a \<^verbatim>\<open>float\<close> expression \<open>e\<close>: the square root rounded to
  single precision. Where the root is taken in double precision and then converted, the
  two roundings give the same number: the 53 bits of a double are more than twice the
  24 of a float.\<close>

fun fsqrt :: "float \<Rightarrow> float" where
  "fsqrt (Finite a) = (if a < 0 then NaN else single (sqrt a))"
| "fsqrt PlusInf = PlusInf"
| "fsqrt MinusInf = NaN"
| "fsqrt NaN = NaN"

text \<open>\<^verbatim>\<open>float(e / 2.0)\<close> for a \<^verbatim>\<open>float\<close> expression \<open>e\<close>: the value of \<open>e\<close> is widened to
  double precision, halved there without error, and rounded back.\<close>

fun fhalf :: "float \<Rightarrow> float" where
  "fhalf (Finite a) = single (a / 2)"
| "fhalf PlusInf = PlusInf"
| "fhalf MinusInf = MinusInf"
| "fhalf NaN = NaN"

text \<open>The comparisons \<^verbatim>\<open><\<close> and \<^verbatim>\<open>==\<close>; a NaN makes both false.\<close>

fun flt :: "float \<Rightarrow> float \<Rightarrow> bool" where
  "flt (Finite a) (Finite b) = (a < b)"
| "flt (Finite a) PlusInf = True"
| "flt MinusInf (Finite b) = True"
| "flt MinusInf PlusInf = True"
| "flt a b = False"

fun feq :: "float \<Rightarrow> float \<Rightarrow> bool" where
  "feq (Finite a) (Finite b) = (a = b)"
| "feq PlusInf PlusInf = True"
| "feq MinusInf MinusInf = True"
| "feq a b = False"

subsection \<open>Points and matrices in single precision\<close>

text \<open>Modelled from the spec: the point type \<^verbatim>\<open>vec3f\<close> of basetypes.h, "3 floating-point
  components, supporting subtraction, dot product, scalar division, length", with
  \<^verbatim>\<open>float\<close> components and every operation rounded.\<close>

record vec3f_sp =
  x_sp :: float
  y_sp :: float
  z_sp :: float

definition vec3f_minus_sp :: "vec3f_sp \<Rightarrow> vec3f_sp \<Rightarrow> vec3f_sp" where
  "vec3f_minus_sp a b =
     \<lparr>x_sp = fsub (x_sp a) (x_sp b), y_sp = fsub (y_sp a) (y_sp b), z_sp = fsub (z_sp a) (z_sp b)\<rparr>"

definition vec3f_plus_sp :: "vec3f_sp \<Rightarrow> vec3f_sp \<Rightarrow> vec3f_sp" where
  "vec3f_plus_sp a b =
     \<lparr>x_sp = fadd (x_sp a) (x_sp b), y_sp = fadd (y_sp a) (y_sp b), z_sp = fadd (z_sp a) (z_sp b)\<rparr>"

definition vec3f_div_sp :: "vec3f_sp \<Rightarrow> float \<Rightarrow> vec3f_sp" where
  "vec3f_div_sp a k = \<lparr>x_sp = fdiv (x_sp a) k, y_sp = fdiv (y_sp a) k, z_sp = fdiv (z_sp a) k\<rparr>"

definition dot_sp :: "vec3f_sp \<Rightarrow> vec3f_sp \<Rightarrow> float" where
  "dot_sp a b =
     fadd (fadd (fmul (x_sp a) (x_sp b)) (fmul (y_sp a) (y_sp b))) (fmul (z_sp a) (z_sp b))"

definition vec3f_length_sp :: "vec3f_sp \<Rightarrow> float" where
  "vec3f_length_sp a = fsqrt (dot_sp a a)"

text \<open>Modelled from the spec: the transform type \<^verbatim>\<open>mat4f\<close> of basetypes.h with
  \<^verbatim>\<open>float\<close> entries; \<open>t i j\<close> is \<^verbatim>\<open>t[i][j]\<close>.\<close>

type_synonym mat4f_sp = "nat \<Rightarrow> nat \<Rightarrow> float"

text \<open>Modelled from the spec: \<^verbatim>\<open>vec3f::operator*=(const mat4f &)\<close> of basetypes.h, which
  "applies the transform to the center point directly". The specification does not say
  whether the operator divides by the homogeneous coordinate, so both forms are given:
  the affine product of the row vector with the matrix, and the same product divided by
  \<open>w\<close>. \<^verbatim>\<open>ortho_transform\<close> takes the operator as a parameter.\<close>

definition vec3f_times_mat4f_sp :: "vec3f_sp \<Rightarrow> mat4f_sp \<Rightarrow> vec3f_sp" where
  "vec3f_times_mat4f_sp v t =
     \<lparr>x_sp = fadd (fadd (fadd (fmul (x_sp v) (t 0 0)) (fmul (y_sp v) (t 1 0)))
                     (fmul (z_sp v) (t 2 0))) (t 3 0),
      y_sp = fadd (fadd (fadd (fmul (x_sp v) (t 0 1)) (fmul (y_sp v) (t 1 1)))
                     (fmul (z_sp v) (t 2 1))) (t 3 1),
      z_sp = fadd (fadd (fadd (fmul (x_sp v) (t 0 2)) (fmul (y_sp v) (t 1 2)))
                     (fmul (z_sp v) (t 2 2))) (t 3 2)\<rparr>"

definition vec3f_times_mat4f_w_sp :: "vec3f_sp \<Rightarrow> mat4f_sp \<Rightarrow> vec3f_sp" where
  "vec3f_times_mat4f_w_sp v t =
     (let p = vec3f_times_mat4f_sp v t;
          w = fadd (fadd (fadd (fmul (x_sp v) (t 0 3)) (fmul (y_sp v) (t 1 3)))
                     (fmul (z_sp v) (t 2 3))) (t 3 3)
      in \<lparr>x_sp = fdiv (x_sp p) w, y_sp = fdiv (y_sp p) w, z_sp = fdiv (z_sp p) w\<rparr>)"

subsection \<open>The bounding sphere in single precision\<close>

record bounding_sphere_sp =
  center_sp :: vec3f_sp
  radius_sp :: float

definition bounding_sphere_init_sp :: bounding_sphere_sp where
  "bounding_sphere_init_sp =
     \<lparr>center_sp = \<lparr>x_sp = Finite 0, y_sp = Finite 0, z_sp = Finite 0\<rparr>, radius_sp = Finite (- 1)\<rparr>"

definition maximize_sp :: "bounding_sphere_sp \<Rightarrow> bounding_sphere_sp" where
  "maximize_sp s =
     s\<lparr>radius_sp := Finite float_max,
       center_sp := \<lparr>x_sp = Finite 0, y_sp = Finite 0, z_sp = Finite 0\<rparr>\<rparr>"

definition maximized_sp :: "bounding_sphere_sp \<Rightarrow> bool" where
  "maximized_sp s = (if feq (radius_sp s) (Finite float_max) then True else False)"

text \<open>\<^verbatim>\<open>extend(const vec3f &)\<close>.\<close>

definition extend_vec3f_sp ::
  "(float \<Rightarrow> float \<Rightarrow> bool) \<Rightarrow> bounding_sphere_sp \<Rightarrow> vec3f_sp \<Rightarrow> bounding_sphere_sp" where
  "extend_vec3f_sp fequal s p =
     (if maximized_sp s then s
      else if feq (radius_sp s) (Finite (- 1)) then s\<lparr>radius_sp := Finite 0, center_sp := p\<rparr>
      else
        let x0 = x_sp (center_sp s); y0 = y_sp (center_sp s); z0 = z_sp (center_sp s);
            r0 = radius_sp s;
            x1 = x_sp p; y1 = y_sp p; z1 = z_sp p;
            xn = fsub x1 x0; yn = fsub y1 y0; zn = fsub z1 z0;
            dn = fsqrt (fadd (fadd (fmul xn xn) (fmul yn yn)) (fmul zn zn))
        in if fequal dn (Finite 0) then s
        else if flt dn r0 then s
        else
          let cr = fhalf (fadd dn r0);
              tmp = fdiv (fsub cr r0) dn;
              cx = fadd x0 (fmul xn tmp);
              cy = fadd y0 (fmul yn tmp);
              cz = fadd z0 (fmul zn tmp)
          in s\<lparr>radius_sp := cr, center_sp := \<lparr>x_sp = cx, y_sp = cy, z_sp = cz\<rparr>\<rparr>)"

text \<open>\<^verbatim>\<open>extend(const bounding_sphere &)\<close>.\<close>

definition extend_bounding_sphere_sp ::
  "(float \<Rightarrow> float \<Rightarrow> bool) \<Rightarrow> bounding_sphere_sp \<Rightarrow> bounding_sphere_sp \<Rightarrow> bounding_sphere_sp" where
  "extend_bounding_sphere_sp fequal s b =
     (if maximized_sp s then s
      else if maximized_sp b then maximize_sp s
      else if feq (radius_sp b) (Finite (- 1)) then s
      else if feq (radius_sp s) (Finite (- 1)) then b
      else
        let x0 = x_sp (center_sp s); y0 = y_sp (center_sp s); z0 = z_sp (center_sp s);
            r0 = radius_sp s;
            x1 = x_sp (center_sp b); y1 = y_sp (center_sp b); z1 = z_sp (center_sp b);
            r1 = radius_sp b;
            xn = fsub x1 x0; yn = fsub y1 y0; zn = fsub z1 z0;
            dn = fsqrt (fadd (fadd (fmul xn xn) (fmul yn yn)) (fmul zn zn))
        in if fequal dn (Finite 0) then s
        else if flt (fadd dn r1) r0 then s
        else if flt (fadd dn r0) r1 then b
        else
          let cr = fhalf (fadd (fadd dn r0) r1);
              tmp = fdiv (fsub cr r0) dn;
              cx = fadd x0 (fmul xn tmp);
              cy = fadd y0 (fmul yn tmp);
              cz = fadd z0 (fmul zn tmp)
          in s\<lparr>radius_sp := cr, center_sp := \<lparr>x_sp = cx, y_sp = cy, z_sp = cz\<rparr>\<rparr>)"

text \<open>\<^verbatim>\<open>enclose\<close>, with the scan of the extremal points as in the first embedding.\<close>

definition scan_point_sp ::
  "vec3f_sp \<Rightarrow> (nat \<Rightarrow> vec3f_sp) \<times> (nat \<Rightarrow> vec3f_sp) \<Rightarrow> (nat \<Rightarrow> vec3f_sp) \<times> (nat \<Rightarrow> vec3f_sp)" where
  "scan_point_sp p_i mm =
     (let min_p = fst mm; max_p = snd mm;
          min_p = (if flt (x_sp p_i) (x_sp (min_p 0)) then min_p(0 := p_i) else min_p);
          min_p = (if flt (y_sp p_i) (y_sp (min_p 1)) then min_p(1 := p_i) else min_p);
          min_p = (if flt (z_sp p_i) (z_sp (min_p 2)) then min_p(2 := p_i) else min_p);
          max_p = (if flt (x_sp (max_p 0)) (x_sp p_i) then max_p(0 := p_i) else max_p);
          max_p = (if flt (y_sp (max_p 1)) (y_sp p_i) then max_p(1 := p_i) else max_p);
          max_p = (if flt (z_sp (max_p 2)) (z_sp p_i) then max_p(2 := p_i) else max_p)
      in (min_p, max_p))"

definition enclose_sp ::
  "(float \<Rightarrow> float \<Rightarrow> bool) \<Rightarrow> bounding_sphere_sp \<Rightarrow> vec3f_sp list \<Rightarrow> bounding_sphere_sp" where
  "enclose_sp fequal this points =
     (let s = bounding_sphere_init_sp in
      case points of
        [] \<Rightarrow> s
      | p0 # rest \<Rightarrow>
          let mm = fold scan_point_sp rest (\<lambda>k. p0, \<lambda>k. p0);
              min_p = fst mm; max_p = snd mm;
              span = vec3f_minus_sp (max_p 0) (min_p 0);
              dx = dot_sp span span;
              span = vec3f_minus_sp (max_p 1) (min_p 1);
              dy = dot_sp span span;
              span = vec3f_minus_sp (max_p 2) (min_p 2);
              dz = dot_sp span span;
              ms = (min_p 0, max_p 0, dx);
              ms = (if flt (snd (snd ms)) dy then (min_p 1, max_p 1, dy) else ms);
              ms = (if flt (snd (snd ms)) dz then (min_p 2, max_p 2, dz) else ms);
              max_span0 = fst ms; max_span1 = fst (snd ms);
              s = s\<lparr>center_sp := vec3f_div_sp (vec3f_plus_sp max_span0 max_span1) (Finite 2)\<rparr>;
              s = s\<lparr>radius_sp := fsqrt (dot_sp (center_sp s) (center_sp s))\<rparr>
          in fold (\<lambda>p s. extend_vec3f_sp fequal s p) points s)"

text \<open>\<^verbatim>\<open>ortho_transform\<close>; \<open>apply_mat\<close> is \<^verbatim>\<open>vec3f::operator*=\<close>.\<close>

definition ortho_transform_sp ::
  "(vec3f_sp \<Rightarrow> mat4f_sp \<Rightarrow> vec3f_sp) \<Rightarrow> bounding_sphere_sp \<Rightarrow> mat4f_sp \<Rightarrow> bounding_sphere_sp" where
  "ortho_transform_sp apply_mat s t =
     (if maximized_sp s then s
      else if feq (radius_sp s) (Finite (- 1)) then s
      else
        let s = s\<lparr>center_sp := apply_mat (center_sp s) t\<rparr>
        in s\<lparr>radius_sp := fmul (radius_sp s)
                 (vec3f_length_sp \<lparr>x_sp = t 0 0, y_sp = t 1 0, z_sp = t 2 0\<rparr>)\<rparr>)"

subsection \<open>Vocabulary of the claims in single precision\<close>

text \<open>The distance of two points as the source computes \<^verbatim>\<open>dn\<close>, and the point the
  source reaches from \<open>a\<close> with the factor \<open>k\<close> on the difference to \<open>b\<close>.\<close>

definition distance_sp :: "vec3f_sp \<Rightarrow> vec3f_sp \<Rightarrow> float" where
  "distance_sp a b =
     fsqrt (fadd (fadd (fmul (fsub (x_sp b) (x_sp a)) (fsub (x_sp b) (x_sp a)))
                       (fmul (fsub (y_sp b) (y_sp a)) (fsub (y_sp b) (y_sp a))))
                 (fmul (fsub (z_sp b) (z_sp a)) (fsub (z_sp b) (z_sp a))))"

definition toward_sp :: "vec3f_sp \<Rightarrow> vec3f_sp \<Rightarrow> float \<Rightarrow> vec3f_sp" where
  "toward_sp a b k =
     \<lparr>x_sp = fadd (x_sp a) (fmul (fsub (x_sp b) (x_sp a)) k),
      y_sp = fadd (y_sp a) (fmul (fsub (y_sp b) (y_sp a)) k),
      z_sp = fadd (z_sp a) (fmul (fsub (z_sp b) (z_sp a)) k)\<rparr>"

text \<open>A matrix whose rotation and scale block is the identity, whose translation is
  \<open>v\<close> and whose last column is that of an affine map.\<close>

definition pure_translation_sp :: "mat4f_sp \<Rightarrow> vec3f_sp \<Rightarrow> bool" where
  "pure_translation_sp t v =
     (t 0 0 = Finite 1 \<and> t 0 1 = Finite 0 \<and> t 0 2 = Finite 0 \<and> t 0 3 = Finite 0 \<and>
      t 1 0 = Finite 0 \<and> t 1 1 = Finite 1 \<and> t 1 2 = Finite 0 \<and> t 1 3 = Finite 0 \<and>
      t 2 0 = Finite 0 \<and> t 2 1 = Finite 0 \<and> t 2 2 = Finite 1 \<and> t 2 3 = Finite 0 \<and>
      t 3 0 = x_sp v \<and> t 3 1 = y_sp v \<and> t 3 2 = z_sp v \<and> t 3 3 = Finite 1)"

text \<open>The values a \<^verbatim>\<open>float\<close> variable can hold: an infinity, a NaN, or a real number that
  rounding leaves as it is; and the finite ones among them.\<close>

fun single_value :: "float \<Rightarrow> bool" where
  "single_value (Finite a) = (single a = Finite a)"
| "single_value other = True"

fun finite_single :: "float \<Rightarrow> bool" where
  "finite_single (Finite a) = (single a = Finite a)"
| "finite_single other = False"

text \<open>The real number a finite \<^verbatim>\<open>float\<close> stands for, and with it the exact point and the
  exact sphere of a point and a sphere with finite fields; enclosure of such spheres is
  that of the exact ones.\<close>

fun value_of :: "float \<Rightarrow> real" where
  "value_of (Finite a) = a"
| "value_of other = 0"

definition exact_vec3f :: "vec3f_sp \<Rightarrow> vec3f" where
  "exact_vec3f v = \<lparr>vx = value_of (x_sp v), vy = value_of (y_sp v), vz = value_of (z_sp v)\<rparr>"

definition exact_sphere :: "bounding_sphere_sp \<Rightarrow> bounding_sphere" where
  "exact_sphere s = \<lparr>center = exact_vec3f (center_sp s), radius = value_of (radius_sp s)\<rparr>"

section \<open>Distances\<close>

lemma norm3_nonneg: "0 \<le> sqrt (a * a + b * b + c * c)"
  by (simp add: add_nonneg_nonneg)

lemma norm3_scale:
  "sqrt ((a * k) * (a * k) + (b * k) * (b * k) + (c * k) * (c * k))
     = \<bar>k\<bar> * sqrt (a * a + b * b + c * c)"
proof -
  have "(a * k) * (a * k) + (b * k) * (b * k) + (c * k) * (c * k)
          = (k * k) * (a * a + b * b + c * c)"
    by (simp add: algebra_simps)
  then show ?thesis
    by (simp add: real_sqrt_mult)
qed

text \<open>The triangle inequality in three dimensions, from the planar one applied twice.\<close>

lemma norm3_triangle:
  "sqrt ((a + a') * (a + a') + (b + b') * (b + b') + (c + c') * (c + c'))
     \<le> sqrt (a * a + b * b + c * c) + sqrt (a' * a' + b' * b' + c' * c')"
proof -
  let ?u = "sqrt (b\<^sup>2 + c\<^sup>2)" and ?u' = "sqrt (b'\<^sup>2 + c'\<^sup>2)"
  have inner: "sqrt ((b + b')\<^sup>2 + (c + c')\<^sup>2) \<le> ?u + ?u'"
    by (rule real_sqrt_sum_squares_triangle_ineq)
  have nn: "0 \<le> sqrt ((b + b')\<^sup>2 + (c + c')\<^sup>2)" by simp
  have "(b + b')\<^sup>2 + (c + c')\<^sup>2 = (sqrt ((b + b')\<^sup>2 + (c + c')\<^sup>2))\<^sup>2" by simp
  also have "\<dots> \<le> (?u + ?u')\<^sup>2"
    using inner nn by (rule power_mono)
  finally have sq: "(b + b')\<^sup>2 + (c + c')\<^sup>2 \<le> (?u + ?u')\<^sup>2" .
  have "sqrt ((a + a')\<^sup>2 + ((b + b')\<^sup>2 + (c + c')\<^sup>2))
          \<le> sqrt ((a + a')\<^sup>2 + (?u + ?u')\<^sup>2)"
    using sq by simp
  also have "\<dots> \<le> sqrt (a\<^sup>2 + ?u\<^sup>2) + sqrt (a'\<^sup>2 + ?u'\<^sup>2)"
    by (rule real_sqrt_sum_squares_triangle_ineq)
  also have "\<dots> = sqrt (a\<^sup>2 + (b\<^sup>2 + c\<^sup>2)) + sqrt (a'\<^sup>2 + (b'\<^sup>2 + c'\<^sup>2))"
    by simp
  finally show ?thesis
    by (simp add: power2_eq_square add.assoc)
qed

lemma distance_nonneg: "0 \<le> distance a b"
  unfolding distance_def by (rule norm3_nonneg)

lemma distance_self: "distance a a = 0"
  by (simp add: distance_def)

lemma distance_sym: "distance a b = distance b a"
proof -
  have "\<And>u v::real. (u - v) * (u - v) = (v - u) * (v - u)" by (simp add: algebra_simps)
  then show ?thesis by (simp add: distance_def)
qed

lemma distance_triangle: "distance a c \<le> distance a b + distance b c"
proof -
  have "distance a c =
      sqrt (((vx b - vx a) + (vx c - vx b)) * ((vx b - vx a) + (vx c - vx b))
          + ((vy b - vy a) + (vy c - vy b)) * ((vy b - vy a) + (vy c - vy b))
          + ((vz b - vz a) + (vz c - vz b)) * ((vz b - vz a) + (vz c - vz b)))"
    by (simp add: distance_def)
  also have "\<dots> \<le> distance a b + distance b c"
    unfolding distance_def by (rule norm3_triangle)
  finally show ?thesis .
qed

lemma distance_toward_from: "distance a (toward a b k) = \<bar>k\<bar> * distance a b"
  by (simp add: distance_def toward_def norm3_scale)

lemma distance_toward_to: "distance (toward a b k) b = \<bar>1 - k\<bar> * distance a b"
proof -
  have "\<And>u v::real. v - (u + (v - u) * k) = (v - u) * (1 - k)" by (simp add: algebra_simps)
  then show ?thesis by (simp add: distance_def toward_def norm3_scale)
qed

lemma distance_along_x:
  "distance \<lparr>vx = a, vy = b, vz = c\<rparr> \<lparr>vx = a', vy = b, vz = c\<rparr> = \<bar>a' - a\<bar>"
  by (simp add: distance_def)

lemma vec3f_length_along_x: "vec3f_length \<lparr>vx = a, vy = 0, vz = 0\<rparr> = \<bar>a\<bar>"
  by (simp add: vec3f_length_def dot_def)

lemma vec3f_midpoint_self: "vec3f_div (vec3f_plus p p) 2 = p"
  by (simp add: vec3f_div_def vec3f_plus_def)

section \<open>Enclosure of spheres and points\<close>

text \<open>\<open>encloses_sphere\<close> is enclosure of every point: it implies it, and for a sphere
  of radius at least zero it follows from it.\<close>

lemma encloses_sphere_sound:
  "encloses_sphere t u \<Longrightarrow> encloses_point u p \<Longrightarrow> encloses_point t p"
  using distance_triangle [of "center t" p "center u"]
  by (simp add: encloses_sphere_def encloses_point_def)

lemma encloses_sphere_complete:
  assumes r: "0 \<le> radius u" and all: "\<And>p. encloses_point u p \<Longrightarrow> encloses_point t p"
  shows "encloses_sphere t u"
proof (cases "distance (center t) (center u) = 0")
  case True
  let ?p = "\<lparr>vx = vx (center u) + radius u, vy = vy (center u), vz = vz (center u)\<rparr>"
  have du: "distance (center u) ?p = radius u" using r by (simp add: distance_def)
  then have "encloses_point t ?p" using all [of ?p] by (simp add: encloses_point_def)
  then have "distance (center t) ?p \<le> radius t" by (simp add: encloses_point_def)
  moreover have "distance (center u) ?p \<le> distance (center u) (center t) + distance (center t) ?p"
    by (rule distance_triangle)
  ultimately show ?thesis using True du
    by (simp add: encloses_sphere_def distance_sym [of "center u" "center t"])
next
  case False
  let ?e = "distance (center t) (center u)"
  have pos: "0 < ?e" using False distance_nonneg [of "center t" "center u"] by simp
  let ?p = "toward (center t) (center u) (1 + radius u / ?e)"
  have k: "0 \<le> 1 + radius u / ?e" using r pos by (simp add: add_nonneg_nonneg)
  have "distance (center t) ?p = \<bar>1 + radius u / ?e\<bar> * ?e"
    by (rule distance_toward_from)
  also have "\<dots> = ?e + radius u" using k pos by (simp add: algebra_simps)
  finally have far: "distance (center t) ?p = ?e + radius u" .
  have "distance ?p (center u) = \<bar>1 - (1 + radius u / ?e)\<bar> * ?e"
    by (rule distance_toward_to)
  also have "\<dots> = radius u" using r pos by simp
  finally have "distance (center u) ?p = radius u" by (simp add: distance_sym)
  then have "encloses_point t ?p" using all [of ?p] by (simp add: encloses_point_def)
  then show ?thesis using far by (simp add: encloses_sphere_def encloses_point_def)
qed

section \<open>The branches of the two merges\<close>

lemma float_max_value: "float_max = 340282346638528859811704183484516925440"
  by (simp add: float_max_def)

lemma extend_vec3f_maximized: "maximized s \<Longrightarrow> extend_vec3f fequal s p = s"
  by (simp add: extend_vec3f_def)

lemma extend_vec3f_set:
  "\<not> maximized s \<Longrightarrow> radius s \<noteq> -1 \<Longrightarrow>
   extend_vec3f fequal s p =
     (if fequal (distance (center s) p) 0 then s
      else if distance (center s) p < radius s then s
      else s\<lparr>radius := (distance (center s) p + radius s) / 2,
             center := toward (center s) p
               (((distance (center s) p + radius s) / 2 - radius s) / distance (center s) p)\<rparr>)"
  by (simp add: extend_vec3f_def distance_def toward_def Let_def)

lemma maximized_maximize: "maximized (maximize s)"
  by (simp add: maximized_def maximize_def)

text \<open>A single point: the seed sphere is centered at the point, its radius is the
  point's distance from the origin, and the merge pass finds the point at distance zero.\<close>

lemma enclose_single:
  assumes "0 < vec3f_length p"
  shows "enclose fequal this [p] = \<lparr>center = p, radius = vec3f_length p\<rparr>"
proof -
  let ?s = "\<lparr>center = p, radius = vec3f_length p\<rparr>"
  have "enclose fequal this [p] = extend_vec3f fequal ?s p"
    by (simp add: enclose_def Let_def vec3f_midpoint_self bounding_sphere_init_def
        vec3f_length_def)
  also have "\<dots> = ?s"
  proof (cases "maximized ?s")
    case True
    then show ?thesis by (rule extend_vec3f_maximized)
  next
    case False
    then show ?thesis using assms by (simp add: extend_vec3f_set distance_self)
  qed
  finally show ?thesis .
qed

section \<open>Frustum test of the unit sphere at the origin\<close>

lemma unit_sphere_not_maximized:
  "\<not> maximized \<lparr>center = \<lparr>vx = 0, vy = 0, vz = 0\<rparr>, radius = 1\<rparr>"
  by (simp add: maximized_def float_max_def)

lemma intersect_frustum_touching_near:
  assumes "\<not> maximized s" and "radius s = 1" and "vz (center s) = 0"
    and "z_near f = 1" and "z_far f = 10"
    and "2 < sphere_plane_distance s (top_plane f) (top_plane f 3)"
    and "2 < sphere_plane_distance s (bot_plane f) (bot_plane f 3)"
    and "2 < sphere_plane_distance s (left_plane f) (left_plane f 3)"
    and "2 < sphere_plane_distance s (right_plane f) (right_plane f 3)"
  shows "intersect_frustum s f = partial"
  using assms unfolding intersect_frustum_def Let_def by simp

text \<open>
  C1, as amended. For the sphere centered at the origin with radius 1 and every frustum
  with \<open>z_near = 1\<close>, \<open>z_far = 10\<close> and all four side planes at signed distance
  greater than 2 from the origin (the distance \<open>sphere_plane_distance\<close> computes),
  \<open>intersect_frustum\<close> returns \<open>partial\<close>: the distance to the near plane is \<open>-1\<close>,
  which is not less than minus the radius, so the sphere counts as touching the near
  plane, not as behind it.
\<close>

theorem intersect_frustum_unit_sphere_partial:
  assumes "z_near f = 1" and "z_far f = 10"
    and "2 < sphere_plane_distance \<lparr>center = \<lparr>vx = 0, vy = 0, vz = 0\<rparr>, radius = 1\<rparr>
               (top_plane f) (top_plane f 3)"
    and "2 < sphere_plane_distance \<lparr>center = \<lparr>vx = 0, vy = 0, vz = 0\<rparr>, radius = 1\<rparr>
               (bot_plane f) (bot_plane f 3)"
    and "2 < sphere_plane_distance \<lparr>center = \<lparr>vx = 0, vy = 0, vz = 0\<rparr>, radius = 1\<rparr>
               (left_plane f) (left_plane f 3)"
    and "2 < sphere_plane_distance \<lparr>center = \<lparr>vx = 0, vy = 0, vz = 0\<rparr>, radius = 1\<rparr>
               (right_plane f) (right_plane f 3)"
  shows "intersect_frustum \<lparr>center = \<lparr>vx = 0, vy = 0, vz = 0\<rparr>, radius = 1\<rparr> f = partial"
  using unit_sphere_not_maximized assms
  by (intro intersect_frustum_touching_near) simp_all

theorem intersect_frustum_unit_sphere_partial_witness:
  "z_near \<lparr>z_near = 1, z_far = 10, top_plane = (!) [0, -1, 0, -3],
           bot_plane = (!) [0, 1, 0, -3], left_plane = (!) [1, 0, 0, -3],
           right_plane = (!) [-1, 0, 0, -3]\<rparr> = 1
   \<and> 2 < sphere_plane_distance \<lparr>center = \<lparr>vx = 0, vy = 0, vz = 0\<rparr>, radius = 1\<rparr>
            ((!) [0, -1, 0, -3]) ([0, -1, 0, -3] ! 3)
   \<and> intersect_frustum \<lparr>center = \<lparr>vx = 0, vy = 0, vz = 0\<rparr>, radius = 1\<rparr>
        \<lparr>z_near = 1, z_far = 10, top_plane = (!) [0, -1, 0, -3],
         bot_plane = (!) [0, 1, 0, -3], left_plane = (!) [1, 0, 0, -3],
         right_plane = (!) [-1, 0, 0, -3]\<rparr> = partial"
  using intersect_frustum_unit_sphere_partial
    [of "\<lparr>z_near = 1, z_far = 10, top_plane = (!) [0, -1, 0, -3],
          bot_plane = (!) [0, 1, 0, -3], left_plane = (!) [1, 0, 0, -3],
          right_plane = (!) [-1, 0, 0, -3]\<rparr>"]
  by (simp add: sphere_plane_distance_def)

text \<open>The claim as stated fails: a frustum with \<open>z_near = 1\<close>, \<open>z_far = 10\<close> and
  the four side planes at signed distance 4 from the origin, for which the result is not
  \<open>outside\<close>.\<close>

theorem intersect_frustum_unit_sphere_not_outside:
  "z_near \<lparr>z_near = 1, z_far = 10, top_plane = (!) [0, -1, 0, -4],
           bot_plane = (!) [0, 1, 0, -4], left_plane = (!) [1, 0, 0, -4],
           right_plane = (!) [-1, 0, 0, -4]\<rparr> = 1
   \<and> z_far \<lparr>z_near = 1, z_far = 10, top_plane = (!) [0, -1, 0, -4],
           bot_plane = (!) [0, 1, 0, -4], left_plane = (!) [1, 0, 0, -4],
           right_plane = (!) [-1, 0, 0, -4]\<rparr> = 10
   \<and> 2 < sphere_plane_distance \<lparr>center = \<lparr>vx = 0, vy = 0, vz = 0\<rparr>, radius = 1\<rparr>
            ((!) [0, -1, 0, -4]) ([0, -1, 0, -4] ! 3)
   \<and> 2 < sphere_plane_distance \<lparr>center = \<lparr>vx = 0, vy = 0, vz = 0\<rparr>, radius = 1\<rparr>
            ((!) [0, 1, 0, -4]) ([0, 1, 0, -4] ! 3)
   \<and> 2 < sphere_plane_distance \<lparr>center = \<lparr>vx = 0, vy = 0, vz = 0\<rparr>, radius = 1\<rparr>
            ((!) [1, 0, 0, -4]) ([1, 0, 0, -4] ! 3)
   \<and> 2 < sphere_plane_distance \<lparr>center = \<lparr>vx = 0, vy = 0, vz = 0\<rparr>, radius = 1\<rparr>
            ((!) [-1, 0, 0, -4]) ([-1, 0, 0, -4] ! 3)
   \<and> intersect_frustum \<lparr>center = \<lparr>vx = 0, vy = 0, vz = 0\<rparr>, radius = 1\<rparr>
        \<lparr>z_near = 1, z_far = 10, top_plane = (!) [0, -1, 0, -4],
         bot_plane = (!) [0, 1, 0, -4], left_plane = (!) [1, 0, 0, -4],
         right_plane = (!) [-1, 0, 0, -4]\<rparr> \<noteq> outside"
  using intersect_frustum_touching_near
    [of "\<lparr>center = \<lparr>vx = 0, vy = 0, vz = 0\<rparr>, radius = 1\<rparr>"
        "\<lparr>z_near = 1, z_far = 10, top_plane = (!) [0, -1, 0, -4],
          bot_plane = (!) [0, 1, 0, -4], left_plane = (!) [1, 0, 0, -4],
          right_plane = (!) [-1, 0, 0, -4]\<rparr>"]
    unit_sphere_not_maximized
  by (simp add: sphere_plane_distance_def)

section \<open>Enclosing one point or none\<close>

text \<open>
  C2, evaluated. For the one-element list holding the point \<open>(3, 4, 0)\<close>, \<open>enclose\<close>
  yields the sphere centered at the point with radius 5, the point's distance from the
  origin, and not radius 0; for the empty list it yields the unset sphere of the
  constructor.
\<close>

theorem enclose_single_point_radius_is_origin_distance:
  "enclose fequal this [\<lparr>vx = 3, vy = 4, vz = 0\<rparr>]
     = \<lparr>center = \<lparr>vx = 3, vy = 4, vz = 0\<rparr>, radius = 5\<rparr>
   \<and> enclose fequal this [] = bounding_sphere_init
   \<and> radius (enclose fequal this []) = -1"
proof -
  have "sqrt 25 = 5" using real_sqrt_abs2 [of 5] by simp
  then have l: "vec3f_length \<lparr>vx = 3, vy = 4, vz = 0\<rparr> = 5"
    by (simp add: vec3f_length_def dot_def)
  have "enclose fequal this [] = bounding_sphere_init" by (simp add: enclose_def)
  then show ?thesis
    using enclose_single [of "\<lparr>vx = 3, vy = 4, vz = 0\<rparr>" fequal this]
    by (simp add: l bounding_sphere_init_def)
qed

section \<open>Frustum test on a sentinel sphere\<close>

text \<open>
  C8. For every frustum, \<open>intersect_frustum\<close> on a maximized sphere returns
  \<open>partial\<close>, and on an unset sphere (radius flag \<open>-1\<close>) returns \<open>partial\<close>; the
  result does not depend on any plane of the frustum.
\<close>

theorem intersect_frustum_sentinel_partial:
  "maximized s \<or> radius s = -1 \<Longrightarrow> intersect_frustum s f = partial"
  by (auto simp: intersect_frustum_def)

theorem intersect_frustum_sentinel_partial_witness:
  "(maximized (maximize bounding_sphere_init) \<or> radius (maximize bounding_sphere_init) = -1)
   \<and> intersect_frustum (maximize bounding_sphere_init)
        \<lparr>z_near = 1, z_far = 10, top_plane = (\<lambda>i. 0), bot_plane = (\<lambda>i. 0),
         left_plane = (\<lambda>i. 0), right_plane = (\<lambda>i. 0)\<rparr> = partial
   \<and> (maximized bounding_sphere_init \<or> radius bounding_sphere_init = -1)
   \<and> intersect_frustum bounding_sphere_init
        \<lparr>z_near = 1, z_far = 10, top_plane = (\<lambda>i. 0), bot_plane = (\<lambda>i. 0),
         left_plane = (\<lambda>i. 0), right_plane = (\<lambda>i. 0)\<rparr> = partial"
proof -
  have m: "maximized (maximize bounding_sphere_init)"
    by (simp add: maximized_def maximize_def)
  have u: "radius bounding_sphere_init = -1"
    by (simp add: bounding_sphere_init_def)
  from m u show ?thesis
    using intersect_frustum_sentinel_partial [of "maximize bounding_sphere_init"]
          intersect_frustum_sentinel_partial [of bounding_sphere_init]
    by simp
qed

section \<open>Extending a sphere by a box\<close>

text \<open>
  C10. For every sphere and every axis-aligned box, \<open>extend\<close> by the box, called
  directly or through the dispatch on a bounding volume, leaves center and radius as
  they were; so the result need not enclose the box: the unset sphere of the constructor
  stays unset and encloses no point at all.
\<close>

theorem extend_box_unchanged:
  "extend_axis_aligned_bounding_box s bbox = s \<and>
   extend_bounding_volume fequal s (Box bbox) = s \<and>
   \<not> encloses_point (extend_bounding_volume fequal bounding_sphere_init (Box bbox)) p"
proof -
  have "\<not> encloses_point bounding_sphere_init p"
    using distance_nonneg [of "center bounding_sphere_init" p]
    by (simp add: encloses_point_def bounding_sphere_init_def)
  then show ?thesis
    by (simp add: extend_axis_aligned_bounding_box_def extend_bounding_volume_def)
qed

theorem extend_box_unchanged_witness:
  "extend_bounding_volume (\<lambda>a b. a = b)
     \<lparr>center = \<lparr>vx = 0, vy = 0, vz = 0\<rparr>, radius = 1\<rparr>
     (Box (\<lparr>vx = 5, vy = 5, vz = 5\<rparr>, \<lparr>vx = 6, vy = 6, vz = 6\<rparr>))
    = \<lparr>center = \<lparr>vx = 0, vy = 0, vz = 0\<rparr>, radius = 1\<rparr>"
  using extend_box_unchanged
    [of "\<lparr>center = \<lparr>vx = 0, vy = 0, vz = 0\<rparr>, radius = 1\<rparr>"
        "(\<lparr>vx = 5, vy = 5, vz = 5\<rparr>, \<lparr>vx = 6, vy = 6, vz = 6\<rparr>)" "\<lambda>a b. a = b"]
  by simp

section \<open>The maximized flag along a sequence of operations\<close>

lemma maximized_step:
  "maximized s \<Longrightarrow> \<not> is_enclose op \<Longrightarrow> maximized (apply_operation fequal op s)"
proof (cases op)
  case (Extend bv)
  assume "maximized s"
  then show ?thesis using Extend
    by (cases bv) (simp_all add: extend_bounding_volume_def extend_bounding_sphere_def
        extend_axis_aligned_bounding_box_def)
next
  case Maximize
  then show ?thesis by (simp add: maximized_maximize)
qed (simp_all add: extend_vec3f_def transform_def ortho_transform_def)

lemma maximized_fold:
  "maximized s \<Longrightarrow> \<forall>op \<in> set ops. \<not> is_enclose op \<Longrightarrow>
   maximized (fold (apply_operation fequal) ops s)"
  by (induction ops arbitrary: s) (simp_all add: maximized_step)

text \<open>
  Merging any sphere into a maximized sphere leaves it unchanged and maximized; and in
  every sequence of public operations from the constructor's sphere in which
  \<open>maximize\<close> is called and no \<open>enclose\<close> follows that call, \<open>maximized\<close> returns true
  at the end.
\<close>

theorem maximized_after_maximize:
  "(maximized s \<longrightarrow>
      extend_bounding_sphere fequal s b = s \<and> maximized (extend_bounding_sphere fequal s b)) \<and>
   ((\<forall>op \<in> set post. \<not> is_enclose op) \<longrightarrow>
      maximized (run fequal (pre @ Maximize # post)))"
proof (intro conjI impI)
  assume m: "maximized s"
  then show "extend_bounding_sphere fequal s b = s" by (simp add: extend_bounding_sphere_def)
  then show "maximized (extend_bounding_sphere fequal s b)" using m by simp
next
  assume a: "\<forall>op \<in> set post. \<not> is_enclose op"
  have "maximized (maximize (fold (apply_operation fequal) pre bounding_sphere_init))"
    by (rule maximized_maximize)
  then show "maximized (run fequal (pre @ Maximize # post))"
    using a by (simp add: run_def maximized_fold)
qed

theorem maximized_after_maximize_witness:
  "maximized (maximize bounding_sphere_init)
   \<and> maximized (extend_bounding_sphere (\<lambda>a b. a = b) (maximize bounding_sphere_init)
        \<lparr>center = \<lparr>vx = 9, vy = 0, vz = 0\<rparr>, radius = 1\<rparr>)
   \<and> \<not> is_enclose (ExtendPoint \<lparr>vx = 7, vy = 0, vz = 0\<rparr> :: unit operation)
   \<and> \<not> is_enclose (Extend (Sphere \<lparr>center = \<lparr>vx = 9, vy = 0, vz = 0\<rparr>, radius = 1\<rparr>) :: unit operation)
   \<and> maximized (run (\<lambda>a b. a = b)
        ([Enclose [\<lparr>vx = 1, vy = 0, vz = 0\<rparr>]] @ Maximize #
         [ExtendPoint \<lparr>vx = 7, vy = 0, vz = 0\<rparr>,
          Extend (Sphere \<lparr>center = \<lparr>vx = 9, vy = 0, vz = 0\<rparr>, radius = 1\<rparr>) :: unit operation]))"
  using maximized_after_maximize
    [of "maximize bounding_sphere_init" "\<lambda>a b. a = b"
        "\<lparr>center = \<lparr>vx = 9, vy = 0, vz = 0\<rparr>, radius = 1\<rparr>"
        "[ExtendPoint \<lparr>vx = 7, vy = 0, vz = 0\<rparr>,
          Extend (Sphere \<lparr>center = \<lparr>vx = 9, vy = 0, vz = 0\<rparr>, radius = 1\<rparr>) :: unit operation]"
        "[Enclose [\<lparr>vx = 1, vy = 0, vz = 0\<rparr>]]"]
    maximized_maximize [of bounding_sphere_init]
  by simp

lemma ortho_transform_scale:
  assumes "\<not> maximized s" and "radius s \<noteq> -1" and "t 1 0 = 0" and "t 2 0 = 0"
  shows "radius (ortho_transform s t) = radius s * \<bar>t 0 0\<bar>"
  using assms by (simp add: ortho_transform_def Let_def vec3f_length_def dot_def)

text \<open>
  C7, evaluated. \<open>maximized\<close> is to return true only if \<open>maximize\<close> was called and
  no \<open>enclose\<close> followed. It compares the radius with the largest float, and scaling
  reaches that value: one point at distance \<open>2^24 - 1\<close> from the origin is enclosed with
  that radius, and two uniform scalings by \<open>2^52\<close> make the radius
  \<open>(2^24 - 1) * 2^104\<close>. No operation of the sequence is \<open>maximize\<close> or merges a
  maximized sphere, every number in it is a float, and \<open>maximized\<close> returns true at its
  end.
\<close>

theorem maximized_without_maximize:
  "Maximize \<notin> set [Enclose [\<lparr>vx = 16777215, vy = 0, vz = 0\<rparr>],
        OrthoTransform (\<lambda>i j. if i = j then (if i = 3 then 1 else 2 ^ 52) else 0),
        OrthoTransform (\<lambda>i j. if i = j then (if i = 3 then 1 else 2 ^ 52) else 0) :: unit operation]
   \<and> (\<forall>fequal. maximized (run fequal
       [Enclose [\<lparr>vx = 16777215, vy = 0, vz = 0\<rparr>],
        OrthoTransform (\<lambda>i j. if i = j then (if i = 3 then 1 else 2 ^ 52) else 0),
        OrthoTransform (\<lambda>i j. if i = j then (if i = 3 then 1 else 2 ^ 52) else 0) :: unit operation]))"
proof -
  let ?p = "\<lparr>vx = 16777215, vy = 0, vz = 0\<rparr>"
  let ?t = "\<lambda>(i::nat) (j::nat). if i = j then (if i = 3 then 1 else 2 ^ 52) else (0::real)"
  have t: "?t 1 0 = 0" "?t 2 0 = 0" "?t 0 0 = 2 ^ 52" by simp_all
  have m: "maximized (run fequal [Enclose [?p], OrthoTransform ?t, OrthoTransform ?t :: unit operation])"
    for fequal
  proof -
    let ?s1 = "enclose fequal bounding_sphere_init [?p]"
    let ?s2 = "ortho_transform ?s1 ?t"
    let ?s3 = "ortho_transform ?s2 ?t"
    have s1: "?s1 = \<lparr>center = ?p, radius = 16777215\<rparr>"
      using enclose_single [of ?p fequal bounding_sphere_init]
      by (simp add: vec3f_length_along_x)
    have r2: "radius ?s2 = 16777215 * 2 ^ 52"
      using ortho_transform_scale [of ?s1 ?t] t
      by (simp add: s1 maximized_def float_max_value)
    have r3: "radius ?s3 = 16777215 * 2 ^ 52 * 2 ^ 52"
      using ortho_transform_scale [of ?s2 ?t] t r2
      by (simp add: maximized_def float_max_value)
    have "maximized ?s3" by (simp add: r3 maximized_def float_max_value)
    then show ?thesis by (simp add: run_def)
  qed
  then show ?thesis by simp
qed

section \<open>Rounding to single precision\<close>

lemma bit_length_0: "bit_length 0 = 0"
  by (simp add: bit_length.simps [of 0])

lemma bit_length_pos: "0 < n \<Longrightarrow> bit_length n = Suc (bit_length (n div 2))"
  by (simp add: bit_length.simps [of n])

lemma bit_length_bounds: "0 < n \<Longrightarrow> 2 ^ (bit_length n - 1) \<le> n \<and> n < 2 ^ bit_length n"
proof (induction n rule: bit_length.induct)
  case (1 n)
  have bl: "bit_length n = Suc (bit_length (n div 2))" using 1(2) by (rule bit_length_pos)
  show ?case
  proof (cases "n div 2 = 0")
    case True
    then have "n = 1" using 1(2) by (auto simp: div_eq_0_iff)
    then show ?thesis using bl True by (simp add: bit_length_0)
  next
    case False
    then have ih: "2 ^ (bit_length (n div 2) - 1) \<le> n div 2 \<and> n div 2 < 2 ^ bit_length (n div 2)"
      using 1 by simp
    have pos: "0 < bit_length (n div 2)" using False by (simp add: bit_length_pos)
    have "2 * 2 ^ (bit_length (n div 2) - 1) \<le> n" using ih by linarith
    moreover have "2 * 2 ^ (bit_length (n div 2) - 1) = (2::nat) ^ bit_length (n div 2)"
      using pos by (cases "bit_length (n div 2)") simp_all
    moreover have "n < 2 * 2 ^ bit_length (n div 2)" using ih by linarith
    ultimately show ?thesis by (simp add: bl)
  qed
qed

lemma pow2_less_cancel: "(2::nat) ^ a < 2 ^ b \<Longrightarrow> a < b"
  by (simp only: power_strict_increasing_iff one_less_numeral_iff semiring_norm)

lemma bit_length_eq:
  assumes "2 ^ k \<le> n" and "n < 2 ^ Suc k"
  shows "bit_length n = Suc k"
proof -
  have "(0::nat) < 2 ^ k" by simp
  then have pos: "0 < n" using assms(1) by linarith
  have b: "2 ^ (bit_length n - 1) \<le> n" "n < 2 ^ bit_length n"
    using bit_length_bounds [OF pos] by simp_all
  have "(2::nat) ^ k < 2 ^ bit_length n" using assms(1) b(2) by linarith
  then have 1: "k < bit_length n" by (rule pow2_less_cancel)
  have "(2::nat) ^ (bit_length n - 1) < 2 ^ Suc k" using assms(2) b(1) by linarith
  then have 2: "bit_length n - 1 < Suc k" by (rule pow2_less_cancel)
  show ?thesis using 1 2 by linarith
qed

lemma bit_length_small: "n < 2 ^ k \<Longrightarrow> bit_length n \<le> k"
proof (cases "n = 0")
  case True
  then show ?thesis by (simp add: bit_length_0)
next
  case False
  assume n: "n < 2 ^ k"
  have "2 ^ (bit_length n - 1) \<le> n" using bit_length_bounds [of n] False by simp
  then have "(2::nat) ^ (bit_length n - 1) < 2 ^ k" using n by linarith
  then have "bit_length n - 1 < k" by (rule pow2_less_cancel)
  then show ?thesis by linarith
qed

lemma single_shift:
  assumes lo: "2 ^ (k + 23) \<le> \<bar>x::real\<bar> * 2 ^ 149" and hi: "\<bar>x\<bar> * 2 ^ 149 < 2 ^ (k + 24)"
  shows "bit_length (nat \<lfloor>\<bar>x\<bar> * 2 ^ 149\<rfloor>) - 24 = k"
proof -
  define y where "y = \<bar>x\<bar> * 2 ^ 149"
  have lo': "real (2 ^ (k + 23)) \<le> y" and hi': "y < real (2 ^ (k + 24))"
    using lo hi by (simp_all add: y_def)
  have "int (2 ^ (k + 23)) \<le> \<lfloor>y\<rfloor>" using lo' by (simp only: le_floor_iff of_int_of_nat_eq)
  then have f1: "(2::nat) ^ (k + 23) \<le> nat \<lfloor>y\<rfloor>" by linarith
  have "\<lfloor>y\<rfloor> < int (2 ^ (k + 24))" using hi' by (simp only: floor_less_iff of_int_of_nat_eq)
  then have "nat \<lfloor>y\<rfloor> < nat (int (2 ^ (k + 24)))" by (simp only: nat_mono_iff of_nat_0_less_iff zero_less_power zero_less_numeral)
  then have "nat \<lfloor>y\<rfloor> < 2 ^ (k + 24)" by (simp only: nat_int)
  moreover have "Suc (k + 23) = k + 24" by simp
  ultimately have f2: "nat \<lfloor>y\<rfloor> < 2 ^ Suc (k + 23)" by (simp only:)
  have "bit_length (nat \<lfloor>y\<rfloor>) = Suc (k + 23)" using f1 f2 by (rule bit_length_eq)
  then show ?thesis by (simp add: y_def)
qed

lemma single_normal:
  assumes lo: "2 ^ (k + 23) \<le> \<bar>x::real\<bar> * 2 ^ 149" and hi: "\<bar>x\<bar> * 2 ^ 149 < 2 ^ (k + 24)"
  shows "single x =
    (let a = of_int (round_even (\<bar>x\<bar> * 2 ^ 149 / 2 ^ k)) * 2 ^ k / 2 ^ 149
     in if 2 ^ 128 \<le> a then (if x < 0 then MinusInf else PlusInf)
        else Finite (if x < 0 then - a else a))"
  unfolding single_def single_shift [OF lo hi] Let_def ..

lemma single_small_shift:
  assumes hi: "\<bar>x::real\<bar> * 2 ^ 149 < 2 ^ 24"
  shows "bit_length (nat \<lfloor>\<bar>x\<bar> * 2 ^ 149\<rfloor>) - 24 = 0"
proof -
  define y where "y = \<bar>x\<bar> * 2 ^ 149"
  have "y < real (2 ^ 24)" using hi by (simp add: y_def)
  then have "\<lfloor>y\<rfloor> < int (2 ^ 24)" by (simp only: floor_less_iff of_int_of_nat_eq)
  then have "nat \<lfloor>y\<rfloor> < nat (int (2 ^ 24))" by (simp only: nat_mono_iff of_nat_0_less_iff zero_less_power zero_less_numeral)
  then have "nat \<lfloor>y\<rfloor> < 2 ^ 24" by (simp only: nat_int)
  then have "bit_length (nat \<lfloor>y\<rfloor>) \<le> 24" by (rule bit_length_small)
  then show ?thesis by (simp add: y_def)
qed

lemma single_small:
  assumes hi: "\<bar>x::real\<bar> * 2 ^ 149 < 2 ^ 24"
  shows "single x =
    (let a = of_int (round_even (\<bar>x\<bar> * 2 ^ 149)) / 2 ^ 149
     in if 2 ^ 128 \<le> a then (if x < 0 then MinusInf else PlusInf)
        else Finite (if x < 0 then - a else a))"
  unfolding single_def single_small_shift [OF hi] Let_def by simp

lemma single_0: "single 0 = Finite 0"
  using single_small [of 0] by (simp add: round_even_def)


lemma round_even_ge: "of_int l \<le> x \<Longrightarrow> l \<le> round_even x"
proof -
  assume "of_int l \<le> x"
  then have "l \<le> \<lfloor>x\<rfloor>" by (simp add: le_floor_iff)
  moreover have "\<lfloor>x\<rfloor> \<le> round_even x" by (simp add: round_even_def Let_def)
  ultimately show ?thesis by linarith
qed

lemma round_even_le: "x \<le> of_int h \<Longrightarrow> round_even x \<le> h"
proof (cases "x = of_int h")
  case True
  then show ?thesis by (simp add: round_even_def)
next
  case False
  assume "x \<le> of_int h"
  then have "x < of_int h" using False by simp
  then have "\<lfloor>x\<rfloor> < h" by (simp add: floor_less_iff)
  moreover have "round_even x \<le> \<lfloor>x\<rfloor> + 1" by (simp add: round_even_def Let_def)
  ultimately show ?thesis by linarith
qed

lemma round_even_of_int: "round_even (of_int m) = m"
  by (simp add: round_even_def)

text \<open>A number of the form \<open>m * 2^k / 2^149\<close> with a 24-bit \<open>m\<close> is a float: rounding
  leaves it as it is. Hence rounding is idempotent.\<close>

lemma single_grid_normal:
  assumes lo: "2 ^ 23 \<le> m" and hi: "m \<le> 2 ^ 24"
    and fin: "real_of_int m * 2 ^ k / 2 ^ 149 < 2 ^ 128"
  shows "single (real_of_int m * 2 ^ k / 2 ^ 149) = Finite (real_of_int m * 2 ^ k / 2 ^ 149)"
proof -
  let ?x = "real_of_int m * 2 ^ k / 2 ^ 149"
  have m0: "0 \<le> real_of_int m" using lo by (smt (verit) of_int_nonneg zero_le_power)
  have x0: "0 \<le> ?x" using m0 by simp
  have ax: "\<bar>?x\<bar> * 2 ^ 149 = real_of_int m * 2 ^ k" using x0 by simp
  have lor: "(2::real) ^ 23 \<le> real_of_int m" using lo by (metis of_int_le_iff of_int_numeral of_int_power)
  have hir: "real_of_int m \<le> 2 ^ 24" using hi by (metis of_int_le_iff of_int_numeral of_int_power)
  show ?thesis
  proof (cases "m = 2 ^ 24")
    case False
    then have "m < 2 ^ 24" using hi by simp
    then have hs: "real_of_int m < 2 ^ 24" by (metis of_int_less_iff of_int_numeral of_int_power)
    have a: "2 ^ (k + 23) \<le> \<bar>?x\<bar> * 2 ^ 149"
      unfolding ax using lor by (simp add: power_add mult.commute)
    have b: "\<bar>?x\<bar> * 2 ^ 149 < 2 ^ (k + 24)"
      unfolding ax using hs by (simp add: power_add mult.commute)
    have r: "round_even (\<bar>?x\<bar> * 2 ^ 149 / 2 ^ k) = m"
      unfolding ax by (simp add: round_even_of_int)
    show ?thesis
      using fin x0 unfolding single_normal [OF a b] r Let_def by (simp add: not_le)
  next
    case True
    have mr: "real_of_int m = 2 ^ 24" using True by simp
    have a: "2 ^ (Suc k + 23) \<le> \<bar>?x\<bar> * 2 ^ 149"
      unfolding ax mr by (simp add: power_add)
    have b: "\<bar>?x\<bar> * 2 ^ 149 < 2 ^ (Suc k + 24)"
      unfolding ax mr by (simp add: power_add)
    have "\<bar>?x\<bar> * 2 ^ 149 / 2 ^ Suc k = real_of_int (2 ^ 23)"
      unfolding ax mr by simp
    then have r: "round_even (\<bar>?x\<bar> * 2 ^ 149 / 2 ^ Suc k) = 2 ^ 23"
      by (simp only: round_even_of_int)
    have e: "real_of_int (2 ^ 23) * 2 ^ Suc k / 2 ^ 149 = ?x"
      unfolding mr by simp
    show ?thesis
      using fin x0 unfolding single_normal [OF a b] r Let_def e by (simp add: not_le)
  qed
qed


lemma single_minus: "single (- x) = fneg (single x)"
proof -
  have a: "\<bar>- x\<bar> = \<bar>x\<bar>" by simp
  consider "x < 0" | "x = 0" | "0 < x" by linarith
  then show ?thesis
  proof cases
    case 1
    then have "\<not> - x < 0" "x < 0" by simp_all
    then show ?thesis unfolding single_def a Let_def by simp
  next
    case 2
    then show ?thesis by (simp add: single_0)
  next
    case 3
    then have "- x < 0" "\<not> x < 0" by simp_all
    then show ?thesis unfolding single_def a Let_def by simp
  qed
qed

lemma single_grid_small:
  assumes lo: "0 \<le> m" and hi: "m < 2 ^ 24"
  shows "single (real_of_int m / 2 ^ 149) = Finite (real_of_int m / 2 ^ 149)"
proof -
  let ?x = "real_of_int m / 2 ^ 149"
  have m0: "0 \<le> real_of_int m" using lo by simp
  have x0: "0 \<le> ?x" using m0 by simp
  have ax: "\<bar>?x\<bar> * 2 ^ 149 = real_of_int m" using x0 by simp
  have hs: "real_of_int m < 2 ^ 24" using hi by (metis of_int_less_iff of_int_numeral of_int_power)
  have b: "\<bar>?x\<bar> * 2 ^ 149 < 2 ^ 24" unfolding ax using hs .
  have le: "real_of_int m / 2 ^ 149 < 2 ^ 128"
  proof -
    have "real_of_int m / 2 ^ 149 \<le> real_of_int m" using m0 by (simp add: field_simps)
    moreover have "(2::real) ^ 24 \<le> 2 ^ 128" by simp
    ultimately show ?thesis using hs by linarith
  qed
  show ?thesis
    using le x0 unfolding single_small [OF b] ax round_even_of_int Let_def by (simp add: not_le)
qed

text \<open>The magnitude that rounding gives, before the test for overflow.\<close>

lemma single_magnitude:
  obtains a where "0 \<le> a"
    and "single x = (if 2 ^ 128 \<le> a then (if x < 0 then MinusInf else PlusInf)
                     else Finite (if x < 0 then - a else a))"
    and "a = real_of_int (round_even (\<bar>x\<bar> * 2 ^ 149 / 2 ^ (bit_length (nat \<lfloor>\<bar>x\<bar> * 2 ^ 149\<rfloor>) - 24)))
               * 2 ^ (bit_length (nat \<lfloor>\<bar>x\<bar> * 2 ^ 149\<rfloor>) - 24) / 2 ^ 149"
proof -
  define a where "a = real_of_int (round_even (\<bar>x\<bar> * 2 ^ 149 / 2 ^ (bit_length (nat \<lfloor>\<bar>x\<bar> * 2 ^ 149\<rfloor>) - 24)))
               * 2 ^ (bit_length (nat \<lfloor>\<bar>x\<bar> * 2 ^ 149\<rfloor>) - 24) / 2 ^ 149"
  have "real_of_int 0 \<le> \<bar>x\<bar> * 2 ^ 149 / 2 ^ (bit_length (nat \<lfloor>\<bar>x\<bar> * 2 ^ 149\<rfloor>) - 24)" by simp
  then have "0 \<le> round_even (\<bar>x\<bar> * 2 ^ 149 / 2 ^ (bit_length (nat \<lfloor>\<bar>x\<bar> * 2 ^ 149\<rfloor>) - 24))"
    by (rule round_even_ge)
  then have 1: "0 \<le> a" unfolding a_def by simp
  have 2: "single x = (if 2 ^ 128 \<le> a then (if x < 0 then MinusInf else PlusInf)
                     else Finite (if x < 0 then - a else a))"
    unfolding single_def Let_def a_def ..
  show ?thesis using that 1 2 a_def by blast
qed

lemma single_finite_bound: "single y = Finite c \<Longrightarrow> \<bar>c\<bar> < 2 ^ 128"
proof -
  assume s: "single y = Finite c"
  obtain a where a: "0 \<le> a"
    "single y = (if 2 ^ 128 \<le> a then (if y < 0 then MinusInf else PlusInf)
                     else Finite (if y < 0 then - a else a))"
    by (rule single_magnitude)
  have "a < 2 ^ 128" "c = (if y < 0 then - a else a)"
    using s a(2) by (auto split: if_splits)
  then show ?thesis using a(1) by (simp split: if_splits)
qed



text \<open>A nonnegative float is \<open>m * 2^k / 2^149\<close> with \<open>m\<close> of at most 24 bits, and of
  exactly 24 bits unless \<open>k = 0\<close>.\<close>

lemma single_grid_form:
  assumes x: "0 \<le> x" and r: "single x = Finite c"
  obtains m k where "c = real_of_int m * 2 ^ k / 2 ^ 149" and "0 \<le> m" and "m \<le> 2 ^ 24"
    and "2 ^ 23 \<le> m \<or> k = 0"
proof -
  define y where "y = \<bar>x\<bar> * 2 ^ 149"
  define s where "s = bit_length (nat \<lfloor>y\<rfloor>) - 24"
  define m where "m = round_even (y / 2 ^ s)"
  define a where "a = real_of_int m * 2 ^ s / 2 ^ 149"
  have nx: "\<not> x < 0" using x by simp
  have sx: "single x = (if 2 ^ 128 \<le> a then PlusInf else Finite a)"
    unfolding single_def a_def m_def s_def y_def Let_def using nx by simp
  then have ca: "c = a" using r by (auto split: if_splits)
  have y0: "0 \<le> y" by (simp add: y_def)
  have m0: "0 \<le> m"
  proof -
    have "real_of_int 0 \<le> y / 2 ^ s" using y0 by simp
    then show ?thesis unfolding m_def by (rule round_even_ge)
  qed
  have N: "nat \<lfloor>y\<rfloor> \<le> y" using y0 by simp
  have up: "m \<le> 2 ^ 24"
  proof -
    have "y < 2 ^ (s + 24)"
    proof (cases "nat \<lfloor>y\<rfloor> = 0")
      case True
      then have "y < 1" using y0 by linarith
      also have "\<dots> \<le> (2::real) ^ (s + 24)" by simp
      finally show ?thesis .
    next
      case False
      then have "nat \<lfloor>y\<rfloor> < 2 ^ bit_length (nat \<lfloor>y\<rfloor>)"
        using bit_length_bounds [of "nat \<lfloor>y\<rfloor>"] by simp
      also have "\<dots> \<le> 2 ^ (s + 24)" by (rule power_increasing) (simp_all add: s_def)
      finally have "Suc (nat \<lfloor>y\<rfloor>) \<le> 2 ^ (s + 24)" by (rule Suc_leI)
      then have "real (Suc (nat \<lfloor>y\<rfloor>)) \<le> real (2 ^ (s + 24))" by (simp only: of_nat_le_iff)
      moreover have "y < real (Suc (nat \<lfloor>y\<rfloor>))" using y0 by (simp; linarith)
      ultimately show ?thesis by simp
    qed
    then have "y / 2 ^ s < 2 ^ 24" by (simp add: power_add field_simps)
    then have "y / 2 ^ s \<le> real_of_int (2 ^ 24)" by simp
    then show ?thesis unfolding m_def by (rule round_even_le)
  qed
  have lo: "2 ^ 23 \<le> m \<or> s = 0"
  proof (rule ccontr)
    assume n: "\<not> (2 ^ 23 \<le> m \<or> s = 0)"
    then have "s \<noteq> 0" by simp
    then have bl: "bit_length (nat \<lfloor>y\<rfloor>) = s + 24" by (simp add: s_def)
    then have pos: "0 < nat \<lfloor>y\<rfloor>" using bit_length_0 by (cases "nat \<lfloor>y\<rfloor> = 0") simp_all
    have "bit_length (nat \<lfloor>y\<rfloor>) - 1 = s + 23" using bl by simp
    then have "2 ^ (s + 23) \<le> nat \<lfloor>y\<rfloor>"
      using bit_length_bounds [OF pos] by (simp only:)
    then have "real (2 ^ (s + 23)) \<le> real (nat \<lfloor>y\<rfloor>)" by (simp only: of_nat_le_iff)
    then have "real (2 ^ (s + 23)) \<le> y" using N by (rule order_trans)
    then have "2 ^ (s + 23) \<le> y" by (simp only: of_nat_power of_nat_numeral)
    then have "real_of_int (2 ^ 23) \<le> y / 2 ^ s" by (simp add: power_add field_simps)
    then have "2 ^ 23 \<le> m" unfolding m_def by (rule round_even_ge)
    then show False using n by simp
  qed
  show ?thesis using that [of m s] ca a_def m0 up lo by simp
qed

lemma single_idem_nonneg:
  assumes x: "0 \<le> x" and r: "single x = Finite c"
  shows "single c = Finite c"
proof -
  obtain m k where c: "c = real_of_int m * 2 ^ k / 2 ^ 149" and m: "0 \<le> m" "m \<le> 2 ^ 24"
    and lo: "2 ^ 23 \<le> m \<or> k = 0"
    using x r by (rule single_grid_form)
  have fin: "real_of_int m * 2 ^ k / 2 ^ 149 < 2 ^ 128"
    using single_finite_bound [OF r] unfolding c by simp
  show ?thesis
  proof (cases "2 ^ 23 \<le> m")
    case True
    then show ?thesis using single_grid_normal [of m k] m fin unfolding c by simp
  next
    case False
    then have "k = 0" "m < 2 ^ 24" using lo by simp_all
    then show ?thesis using single_grid_small [of m] m unfolding c by simp
  qed
qed

lemma single_idem: "single x = Finite c \<Longrightarrow> single c = Finite c"
proof (cases "0 \<le> x")
  case True
  assume "single x = Finite c"
  with True show ?thesis by (rule single_idem_nonneg)
next
  case False
  assume r: "single x = Finite c"
  have "0 \<le> - x" using False by simp
  moreover have "single (- x) = Finite (- c)" using single_minus [of x] r by simp
  ultimately have "single (- c) = Finite (- c)" by (rule single_idem_nonneg)
  then show ?thesis using single_minus [of "- c"] by (cases "single c") simp_all
qed



text \<open>The values that the evaluations below meet. \<open>2^24 + 1\<close> lies halfway between the
  floats \<open>2^24\<close> and \<open>2^24 + 2\<close> and rounds to the former; \<open>2^25 - 1\<close> and \<open>2^25 + 1\<close>
  round to \<open>2^25\<close>, and \<open>2^24 - 1/2\<close> rounds to \<open>2^24\<close>.\<close>

lemma single_values:
  "single 0 = Finite 0"
  "single 1 = Finite 1"
  "single 2 = Finite 2"
  "single (- 1) = Finite (- 1)"
  "single 16777216 = Finite 16777216"
  "single 16777217 = Finite 16777216"
  "single 8388608 = Finite 8388608"
  "single 8388607 = Finite 8388607"
  "single 281474976710656 = Finite 281474976710656"
  "single (8388607 / 16777216) = Finite (8388607 / 16777216)"
proof -
  show "single 0 = Finite 0" by (rule single_0)
  show "single 1 = Finite 1"
    using single_normal [of 126 1] by (simp add: round_even_def Let_def)
  show "single 2 = Finite 2"
    using single_normal [of 127 2] by (simp add: round_even_def Let_def)
  show "single (- 1) = Finite (- 1)"
    using single_normal [of 126 "- 1"] by (simp add: round_even_def Let_def)
  show "single 16777216 = Finite 16777216"
    using single_normal [of 150 16777216] by (simp add: round_even_def Let_def)
  show "single 16777217 = Finite 16777216"
    using single_normal [of 150 16777217] by (simp add: round_even_def Let_def)
  show "single 8388608 = Finite 8388608"
    using single_normal [of 149 8388608] by (simp add: round_even_def Let_def)
  show "single 8388607 = Finite 8388607"
    using single_normal [of 148 8388607] by (simp add: round_even_def Let_def)
  show "single 281474976710656 = Finite 281474976710656"
    using single_normal [of 174 281474976710656] by (simp add: round_even_def Let_def)
  show "single (8388607 / 16777216) = Finite (8388607 / 16777216)"
    using single_normal [of 124 "8388607 / 16777216"] by (simp add: round_even_def Let_def)
qed

lemma sqrt_2_48: "sqrt 281474976710656 = 16777216"
  using real_sqrt_abs2 [of 16777216] by simp

lemma single_values2:
  "single 33554432 = Finite 33554432"
  "single 33554433 = Finite 33554432"
  "single 33554431 = Finite 33554432"
  "single (- 16777217) = Finite (- 16777216)"
  "single (- 16777216) = Finite (- 16777216)"
  "single 1125899906842624 = Finite 1125899906842624"
  "single (33554431 / 2) = Finite 16777216"
  "single (1 / 2) = Finite (1 / 2)"
  "single 3 = Finite 3"
  "single 4 = Finite 4"
proof -
  show "single 33554432 = Finite 33554432"
    using single_normal [of 151 33554432] by (simp add: round_even_def Let_def)
  show "single 33554433 = Finite 33554432"
    using single_normal [of 151 33554433] by (simp add: round_even_def Let_def)
  show "single 33554431 = Finite 33554432"
    using single_normal [of 150 33554431] by (simp add: round_even_def Let_def)
  show "single (- 16777217) = Finite (- 16777216)"
    using single_normal [of 150 "- 16777217"] by (simp add: round_even_def Let_def)
  show "single (- 16777216) = Finite (- 16777216)"
    using single_normal [of 150 "- 16777216"] by (simp add: round_even_def Let_def)
  show "single 1125899906842624 = Finite 1125899906842624"
    using single_normal [of 176 1125899906842624] by (simp add: round_even_def Let_def)
  show "single (33554431 / 2) = Finite 16777216"
    using single_normal [of 149 "33554431 / 2"] by (simp add: round_even_def Let_def)
  show "single (1 / 2) = Finite (1 / 2)"
    using single_normal [of 125 "1 / 2"] by (simp add: round_even_def Let_def)
  show "single 3 = Finite 3"
    using single_normal [of 127 3] by (simp add: round_even_def Let_def)
  show "single 4 = Finite 4"
    using single_normal [of 128 4] by (simp add: round_even_def Let_def)
qed

lemma sqrt_2_50: "sqrt 1125899906842624 = 33554432"
  using real_sqrt_abs2 [of 33554432] by simp

section \<open>The branches of the two merges in single precision\<close>

lemma extend_vec3f_sp_set:
  "\<not> maximized_sp s \<Longrightarrow> \<not> feq (radius_sp s) (Finite (- 1)) \<Longrightarrow>
   extend_vec3f_sp fequal s p =
     (if fequal (distance_sp (center_sp s) p) (Finite 0) then s
      else if flt (distance_sp (center_sp s) p) (radius_sp s) then s
      else s\<lparr>radius_sp := fhalf (fadd (distance_sp (center_sp s) p) (radius_sp s)),
             center_sp := toward_sp (center_sp s) p
               (fdiv (fsub (fhalf (fadd (distance_sp (center_sp s) p) (radius_sp s))) (radius_sp s))
                     (distance_sp (center_sp s) p))\<rparr>)"
  by (simp add: extend_vec3f_sp_def distance_sp_def toward_sp_def Let_def)


lemma maximized_sp_maximize: "maximized_sp (maximize_sp s)"
  by (simp add: maximized_sp_def maximize_sp_def)







lemma extend_bounding_sphere_sp_set:
  "\<not> maximized_sp s \<Longrightarrow> \<not> maximized_sp b \<Longrightarrow> \<not> feq (radius_sp b) (Finite (- 1)) \<Longrightarrow>
   \<not> feq (radius_sp s) (Finite (- 1)) \<Longrightarrow>
   extend_bounding_sphere_sp fequal s b =
     (if fequal (distance_sp (center_sp s) (center_sp b)) (Finite 0) then s
      else if flt (fadd (distance_sp (center_sp s) (center_sp b)) (radius_sp b)) (radius_sp s) then s
      else if flt (fadd (distance_sp (center_sp s) (center_sp b)) (radius_sp s)) (radius_sp b) then b
      else s\<lparr>radius_sp := fhalf (fadd (fadd (distance_sp (center_sp s) (center_sp b)) (radius_sp s)) (radius_sp b)),
             center_sp := toward_sp (center_sp s) (center_sp b)
               (fdiv (fsub (fhalf (fadd (fadd (distance_sp (center_sp s) (center_sp b)) (radius_sp s)) (radius_sp b))) (radius_sp s))
                     (distance_sp (center_sp s) (center_sp b)))\<rparr>)"
  by (simp add: extend_bounding_sphere_sp_def distance_sp_def toward_sp_def Let_def)

text \<open>The four cases that are decided by the sentinels, before any arithmetic.\<close>

lemma extend_bounding_sphere_sp_sentinels:
  "maximized_sp s \<Longrightarrow> extend_bounding_sphere_sp fequal s b = s"
  "\<not> maximized_sp s \<Longrightarrow> maximized_sp b \<Longrightarrow>
     maximized_sp (extend_bounding_sphere_sp fequal s b)"
  "\<not> maximized_sp s \<Longrightarrow> \<not> maximized_sp b \<Longrightarrow> feq (radius_sp b) (Finite (- 1)) \<Longrightarrow>
     extend_bounding_sphere_sp fequal s b = s"
  "\<not> maximized_sp s \<Longrightarrow> \<not> maximized_sp b \<Longrightarrow> \<not> feq (radius_sp b) (Finite (- 1)) \<Longrightarrow>
     feq (radius_sp s) (Finite (- 1)) \<Longrightarrow> extend_bounding_sphere_sp fequal s b = b"
  by (simp_all add: extend_bounding_sphere_sp_def maximized_sp_maximize)

lemma sphere_sp_not_maximized:
  "r < 2 ^ 100 \<Longrightarrow> \<not> maximized_sp \<lparr>center_sp = c, radius_sp = Finite r\<rparr>"
  by (simp add: maximized_sp_def float_max_def)

lemma distance_sp_x_2_24:
  "distance_sp \<lparr>x_sp = Finite 0, y_sp = Finite 0, z_sp = Finite 0\<rparr>
               \<lparr>x_sp = Finite 16777216, y_sp = Finite 0, z_sp = Finite 0\<rparr> = Finite 16777216"
  by (simp add: distance_sp_def fsub_def single_values sqrt_2_48)

lemma distance_sp_y_2_24:
  "distance_sp \<lparr>x_sp = Finite 0, y_sp = Finite 16777216, z_sp = Finite 0\<rparr>
               \<lparr>x_sp = Finite 0, y_sp = Finite (1 / 2), z_sp = Finite 0\<rparr> = Finite 16777216"
  by (simp add: distance_sp_def fsub_def single_values single_values2 single_minus sqrt_2_48)




lemma distance_along_y:
  "distance \<lparr>vx = a, vy = b, vz = c\<rparr> \<lparr>vx = a, vy = b', vz = c\<rparr> = \<bar>b' - b\<bar>"
  by (simp add: distance_def)

section \<open>Extending a sphere by a point\<close>




section \<open>Extending a sphere by a sphere\<close>

text \<open>
  C3, evaluated. Two set, non-maximized spheres of radius 1 with centers \<open>(0, 0, 0)\<close>
  and \<open>(2^24, 0, 0)\<close>; neither encloses the other. The claim gives the radius
  \<open>(2^24 + 1 + 1) / 2 = 2^23 + 1\<close> around \<open>(2^23, 0, 0)\<close>, the smallest sphere that
  encloses both. The source adds the radii to the distance in single precision, where
  \<open>2^24 + 1\<close> rounds to \<open>2^24\<close>, and returns the radius \<open>2^23\<close> around
  \<open>(2^23 - 1, 0, 0)\<close> (or leaves the first sphere as it is, should \<open>fequal\<close> take
  \<open>2^24\<close> for zero). The result does not enclose the second sphere.
\<close>

theorem extend_bounding_sphere_sp_misses_sphere:
  "\<not> encloses_sphere
        (exact_sphere \<lparr>center_sp = \<lparr>x_sp = Finite 0, y_sp = Finite 0, z_sp = Finite 0\<rparr>, radius_sp = Finite 1\<rparr>)
        (exact_sphere \<lparr>center_sp = \<lparr>x_sp = Finite 16777216, y_sp = Finite 0, z_sp = Finite 0\<rparr>, radius_sp = Finite 1\<rparr>)
   \<and> \<not> encloses_sphere
        (exact_sphere \<lparr>center_sp = \<lparr>x_sp = Finite 16777216, y_sp = Finite 0, z_sp = Finite 0\<rparr>, radius_sp = Finite 1\<rparr>)
        (exact_sphere \<lparr>center_sp = \<lparr>x_sp = Finite 0, y_sp = Finite 0, z_sp = Finite 0\<rparr>, radius_sp = Finite 1\<rparr>)
   \<and> extend_bounding_sphere_sp fequal
     \<lparr>center_sp = \<lparr>x_sp = Finite 0, y_sp = Finite 0, z_sp = Finite 0\<rparr>, radius_sp = Finite 1\<rparr>
     \<lparr>center_sp = \<lparr>x_sp = Finite 16777216, y_sp = Finite 0, z_sp = Finite 0\<rparr>, radius_sp = Finite 1\<rparr>
   = (if fequal (Finite 16777216) (Finite 0)
      then \<lparr>center_sp = \<lparr>x_sp = Finite 0, y_sp = Finite 0, z_sp = Finite 0\<rparr>, radius_sp = Finite 1\<rparr>
      else \<lparr>center_sp = \<lparr>x_sp = Finite 8388607, y_sp = Finite 0, z_sp = Finite 0\<rparr>,
            radius_sp = Finite 8388608\<rparr>)
   \<and> \<not> encloses_sphere
        (exact_sphere (extend_bounding_sphere_sp fequal
           \<lparr>center_sp = \<lparr>x_sp = Finite 0, y_sp = Finite 0, z_sp = Finite 0\<rparr>, radius_sp = Finite 1\<rparr>
           \<lparr>center_sp = \<lparr>x_sp = Finite 16777216, y_sp = Finite 0, z_sp = Finite 0\<rparr>, radius_sp = Finite 1\<rparr>))
        (exact_sphere \<lparr>center_sp = \<lparr>x_sp = Finite 16777216, y_sp = Finite 0, z_sp = Finite 0\<rparr>, radius_sp = Finite 1\<rparr>)"
proof -
  let ?A = "\<lparr>center_sp = \<lparr>x_sp = Finite 0, y_sp = Finite 0, z_sp = Finite 0\<rparr>, radius_sp = Finite 1\<rparr>"
  let ?B = "\<lparr>center_sp = \<lparr>x_sp = Finite 16777216, y_sp = Finite 0, z_sp = Finite 0\<rparr>, radius_sp = Finite 1\<rparr>"
  let ?R = "\<lparr>center_sp = \<lparr>x_sp = Finite 8388607, y_sp = Finite 0, z_sp = Finite 0\<rparr>,
            radius_sp = Finite 8388608\<rparr>"
  have e: "extend_bounding_sphere_sp fequal ?A ?B = (if fequal (Finite 16777216) (Finite 0) then ?A else ?R)"
    by (simp add: extend_bounding_sphere_sp_set sphere_sp_not_maximized distance_sp_x_2_24
        toward_sp_def fsub_def single_values)
  have a: "\<not> encloses_sphere (exact_sphere ?A) (exact_sphere ?B)"
    by (simp add: encloses_sphere_def exact_sphere_def exact_vec3f_def distance_along_x)
  have b: "\<not> encloses_sphere (exact_sphere ?B) (exact_sphere ?A)"
    by (simp add: encloses_sphere_def exact_sphere_def exact_vec3f_def distance_along_x)
  have r: "\<not> encloses_sphere (exact_sphere ?R) (exact_sphere ?B)"
    by (simp add: encloses_sphere_def exact_sphere_def exact_vec3f_def distance_along_x)
  show ?thesis unfolding e using a b r by simp
qed

text \<open>
  C6, evaluated. \<open>A\<close> has center \<open>(0, 2^24, 0)\<close> and radius 0, \<open>B\<close> has center
  \<open>(0, 1/2, 0)\<close> and radius \<open>2^24\<close>. Their distance is \<open>2^24 - 1/2\<close>, so \<open>B\<close> encloses
  \<open>A\<close> and, by the claim, \<open>A\<close> extended by \<open>B\<close> is \<open>B\<close>. The source computes the
  distance as \<open>2^24\<close>, finds neither sphere inside the other and merges them: the result
  is the sphere of radius \<open>2^24\<close> around the origin (or \<open>A\<close> as it is, should \<open>fequal\<close>
  take \<open>2^24\<close> for zero). It is not \<open>B\<close> and does not enclose \<open>B\<close>. The four cases
  of the claim that the sentinels decide hold as stated.
\<close>

theorem extend_bounding_sphere_sp_not_the_container:
  "encloses_sphere
        (exact_sphere \<lparr>center_sp = \<lparr>x_sp = Finite 0, y_sp = Finite (1 / 2), z_sp = Finite 0\<rparr>, radius_sp = Finite 16777216\<rparr>)
        (exact_sphere \<lparr>center_sp = \<lparr>x_sp = Finite 0, y_sp = Finite 16777216, z_sp = Finite 0\<rparr>, radius_sp = Finite 0\<rparr>)
   \<and> extend_bounding_sphere_sp fequal
     \<lparr>center_sp = \<lparr>x_sp = Finite 0, y_sp = Finite 16777216, z_sp = Finite 0\<rparr>, radius_sp = Finite 0\<rparr>
     \<lparr>center_sp = \<lparr>x_sp = Finite 0, y_sp = Finite (1 / 2), z_sp = Finite 0\<rparr>, radius_sp = Finite 16777216\<rparr>
   = (if fequal (Finite 16777216) (Finite 0)
      then \<lparr>center_sp = \<lparr>x_sp = Finite 0, y_sp = Finite 16777216, z_sp = Finite 0\<rparr>, radius_sp = Finite 0\<rparr>
      else \<lparr>center_sp = \<lparr>x_sp = Finite 0, y_sp = Finite 0, z_sp = Finite 0\<rparr>,
            radius_sp = Finite 16777216\<rparr>)
   \<and> extend_bounding_sphere_sp fequal
     \<lparr>center_sp = \<lparr>x_sp = Finite 0, y_sp = Finite 16777216, z_sp = Finite 0\<rparr>, radius_sp = Finite 0\<rparr>
     \<lparr>center_sp = \<lparr>x_sp = Finite 0, y_sp = Finite (1 / 2), z_sp = Finite 0\<rparr>, radius_sp = Finite 16777216\<rparr>
     \<noteq> \<lparr>center_sp = \<lparr>x_sp = Finite 0, y_sp = Finite (1 / 2), z_sp = Finite 0\<rparr>, radius_sp = Finite 16777216\<rparr>
   \<and> \<not> encloses_sphere
        (exact_sphere (extend_bounding_sphere_sp fequal
           \<lparr>center_sp = \<lparr>x_sp = Finite 0, y_sp = Finite 16777216, z_sp = Finite 0\<rparr>, radius_sp = Finite 0\<rparr>
           \<lparr>center_sp = \<lparr>x_sp = Finite 0, y_sp = Finite (1 / 2), z_sp = Finite 0\<rparr>, radius_sp = Finite 16777216\<rparr>))
        (exact_sphere \<lparr>center_sp = \<lparr>x_sp = Finite 0, y_sp = Finite (1 / 2), z_sp = Finite 0\<rparr>, radius_sp = Finite 16777216\<rparr>)"
proof -
  let ?A = "\<lparr>center_sp = \<lparr>x_sp = Finite 0, y_sp = Finite 16777216, z_sp = Finite 0\<rparr>, radius_sp = Finite 0\<rparr>"
  let ?B = "\<lparr>center_sp = \<lparr>x_sp = Finite 0, y_sp = Finite (1 / 2), z_sp = Finite 0\<rparr>, radius_sp = Finite 16777216\<rparr>"
  let ?R = "\<lparr>center_sp = \<lparr>x_sp = Finite 0, y_sp = Finite 0, z_sp = Finite 0\<rparr>,
            radius_sp = Finite 16777216\<rparr>"
  have e: "extend_bounding_sphere_sp fequal ?A ?B = (if fequal (Finite 16777216) (Finite 0) then ?A else ?R)"
    by (simp add: extend_bounding_sphere_sp_set sphere_sp_not_maximized distance_sp_y_2_24
      toward_sp_def fsub_def single_values single_values2 single_minus)
  have c: "encloses_sphere (exact_sphere ?B) (exact_sphere ?A)"
    by (simp add: encloses_sphere_def exact_sphere_def exact_vec3f_def distance_along_y)
  have a: "\<not> encloses_sphere (exact_sphere ?A) (exact_sphere ?B)"
    by (simp add: encloses_sphere_def exact_sphere_def exact_vec3f_def distance_along_y)
  have r: "\<not> encloses_sphere (exact_sphere ?R) (exact_sphere ?B)"
    by (simp add: encloses_sphere_def exact_sphere_def exact_vec3f_def distance_along_y)
  show ?thesis unfolding e using a c r by simp
qed

section \<open>Enclosing a list of points\<close>

lemma scan_second_point_sp:
  "fold scan_point_sp [\<lparr>x_sp = Finite 33554432, y_sp = Finite 0, z_sp = Finite 0\<rparr>]
      (\<lambda>k. \<lparr>x_sp = Finite (- 1), y_sp = Finite 0, z_sp = Finite 0\<rparr>,
       \<lambda>k. \<lparr>x_sp = Finite (- 1), y_sp = Finite 0, z_sp = Finite 0\<rparr>)
    = (\<lambda>k. \<lparr>x_sp = Finite (- 1), y_sp = Finite 0, z_sp = Finite 0\<rparr>,
       (\<lambda>k. \<lparr>x_sp = Finite (- 1), y_sp = Finite 0, z_sp = Finite 0\<rparr>)
         (0 := \<lparr>x_sp = Finite 33554432, y_sp = Finite 0, z_sp = Finite 0\<rparr>))"
  by (simp add: scan_point_sp_def Let_def)

lemma extend_vec3f_sp_stays:
  assumes d: "distance_sp c p = Finite 16777216"
  shows "extend_vec3f_sp fequal \<lparr>center_sp = c, radius_sp = Finite 16777216\<rparr> p
           = \<lparr>center_sp = c, radius_sp = Finite 16777216\<rparr>
         \<or> extend_vec3f_sp fequal \<lparr>center_sp = c, radius_sp = Finite 16777216\<rparr> p
           = \<lparr>center_sp = toward_sp c p (Finite 0), radius_sp = Finite 16777216\<rparr>"
  by (simp add: extend_vec3f_sp_set sphere_sp_not_maximized d fsub_def single_values single_values2)

text \<open>
  C4, evaluated. For the two points \<open>(-1, 0, 0)\<close> and \<open>(2^25, 0, 0)\<close>, \<open>enclose\<close>
  yields the sphere of radius \<open>2^24\<close> around \<open>(2^24, 0, 0)\<close>, whatever \<open>fequal\<close>
  answers: the sum \<open>2^25 - 1\<close> of the extremal coordinates rounds to \<open>2^25\<close>, and the
  merge pass computes the distance \<open>2^24 + 1\<close> of the first point as \<open>2^24\<close>, the
  radius, and moves nothing. The first point is at distance \<open>2^24 + 1\<close> from the center:
  the sphere does not enclose it.
\<close>

theorem enclose_sp_leaves_point_outside:
  "enclose_sp fequal this
     [\<lparr>x_sp = Finite (- 1), y_sp = Finite 0, z_sp = Finite 0\<rparr>,
      \<lparr>x_sp = Finite 33554432, y_sp = Finite 0, z_sp = Finite 0\<rparr>]
   = \<lparr>center_sp = \<lparr>x_sp = Finite 16777216, y_sp = Finite 0, z_sp = Finite 0\<rparr>,
      radius_sp = Finite 16777216\<rparr>
   \<and> \<not> encloses_point
        (exact_sphere (enclose_sp fequal this
           [\<lparr>x_sp = Finite (- 1), y_sp = Finite 0, z_sp = Finite 0\<rparr>,
            \<lparr>x_sp = Finite 33554432, y_sp = Finite 0, z_sp = Finite 0\<rparr>]))
        (exact_vec3f \<lparr>x_sp = Finite (- 1), y_sp = Finite 0, z_sp = Finite 0\<rparr>)"
proof -
  let ?p0 = "\<lparr>x_sp = Finite (- 1), y_sp = Finite 0, z_sp = Finite 0\<rparr>"
  let ?p1 = "\<lparr>x_sp = Finite 33554432, y_sp = Finite 0, z_sp = Finite 0\<rparr>"
  let ?c = "\<lparr>x_sp = Finite 16777216, y_sp = Finite 0, z_sp = Finite 0\<rparr>"
  let ?seed = "\<lparr>center_sp = ?c, radius_sp = Finite 16777216\<rparr>"
  have e: "enclose_sp fequal this [?p0, ?p1]
      = extend_vec3f_sp fequal (extend_vec3f_sp fequal ?seed ?p0) ?p1"
    unfolding enclose_sp_def list.case scan_second_point_sp
    by (simp add: Let_def vec3f_minus_sp_def vec3f_plus_sp_def vec3f_div_sp_def dot_sp_def
        bounding_sphere_init_sp_def fsub_def single_values single_values2 sqrt_2_48 sqrt_2_50)
  have d0: "distance_sp ?c ?p0 = Finite 16777216"
    by (simp add: distance_sp_def fsub_def single_values single_values2 single_minus sqrt_2_48)
  have d1: "distance_sp ?c ?p1 = Finite 16777216"
    by (simp add: distance_sp_def fsub_def single_values single_values2 single_minus sqrt_2_48)
  have t0: "toward_sp ?c ?p0 (Finite 0) = ?c"
    by (simp add: toward_sp_def fsub_def single_values single_values2 single_minus)
  have t1: "toward_sp ?c ?p1 (Finite 0) = ?c"
    by (simp add: toward_sp_def fsub_def single_values single_values2 single_minus)
  have s0: "extend_vec3f_sp fequal ?seed ?p0 = ?seed"
    using extend_vec3f_sp_stays [OF d0, of fequal] by (simp add: t0)
  have s1: "extend_vec3f_sp fequal ?seed ?p1 = ?seed"
    using extend_vec3f_sp_stays [OF d1, of fequal] by (simp add: t1)
  have r: "enclose_sp fequal this [?p0, ?p1] = ?seed" by (simp add: e s0 s1)
  have n: "\<not> encloses_point (exact_sphere ?seed) (exact_vec3f ?p0)"
    by (simp add: encloses_point_def exact_sphere_def exact_vec3f_def distance_along_x)
  show ?thesis unfolding r using n by simp
qed

section \<open>Orthogonal transform by a translation\<close>

lemma single_value_fadd: "single_value (fadd a b)"
proof (cases "fadd a b")
  case (Finite c)
  then obtain u v where "a = Finite u" "b = Finite v" by (cases a; cases b) simp_all
  then have "single (u + v) = Finite c" using Finite by simp
  then show ?thesis using Finite by (simp add: single_idem)
qed simp_all

lemma fdiv_one: "single_value a \<Longrightarrow> fdiv a (Finite 1) = a"
  by (cases a) simp_all

lemma fmul_one: "single_value a \<Longrightarrow> fmul a (Finite 1) = a"
  by (cases a) simp_all

lemma fmul_zero: "finite_single a \<Longrightarrow> fmul a (Finite 0) = Finite 0"
  by (cases a) (simp_all add: single_0)

lemma fadd_zero: "single_value a \<Longrightarrow> fadd a (Finite 0) = a"
  by (cases a) simp_all

lemma finite_single_value: "finite_single a \<Longrightarrow> single_value a"
  by (cases a) simp_all

lemma translate_coordinate:
  assumes "finite_single x" "finite_single y" "finite_single z"
  shows "fadd (fadd (fadd (fmul x (Finite 1)) (fmul y (Finite 0))) (fmul z (Finite 0))) v = fadd x v"
  using assms by (simp add: fmul_one fmul_zero fadd_zero finite_single_value)

lemma translate_coordinate2:
  assumes "finite_single x" "finite_single y" "finite_single z"
  shows "fadd (fadd (fadd (fmul x (Finite 0)) (fmul y (Finite 1))) (fmul z (Finite 0))) v = fadd y v"
proof -
  have "fadd (Finite 0) y = y" using assms(2) by (cases y) simp_all
  then show ?thesis using assms by (simp add: fmul_one fmul_zero fadd_zero finite_single_value)
qed

lemma translate_coordinate3:
  assumes "finite_single x" "finite_single y" "finite_single z"
  shows "fadd (fadd (fadd (fmul x (Finite 0)) (fmul y (Finite 0))) (fmul z (Finite 1))) v = fadd z v"
proof -
  have "fadd (Finite 0) z = z" using assms(3) by (cases z) simp_all
  then show ?thesis using assms by (simp add: fmul_one fmul_zero fadd_zero finite_single_value single_0)
qed

lemma translate_w:
  assumes "finite_single x" "finite_single y" "finite_single z"
  shows "fadd (fadd (fadd (fmul x (Finite 0)) (fmul y (Finite 0))) (fmul z (Finite 0))) (Finite 1) = Finite 1"
  using assms by (simp add: fmul_zero single_0 single_values)

lemma unit_length_sp: "vec3f_length_sp \<lparr>x_sp = Finite 1, y_sp = Finite 0, z_sp = Finite 0\<rparr> = Finite 1"
  by (simp add: vec3f_length_sp_def dot_sp_def single_values)

text \<open>
  C9, as amended. \<open>ortho_transform\<close> leaves a maximized or unset sphere unchanged. On
  a set, non-maximized sphere whose center coordinates are finite, with a pure-translation
  matrix, it leaves the radius unchanged and replaces each center coordinate by the sum
  of the coordinate and the translation component, rounded to single precision; this
  holds whether or not \<^verbatim>\<open>operator*=\<close> divides by the homogeneous coordinate.
\<close>

theorem ortho_transform_sp_pure_translation:
  "(maximized_sp s \<or> feq (radius_sp s) (Finite (- 1)) \<longrightarrow> ortho_transform_sp apply_mat s t = s) \<and>
   (\<not> maximized_sp s \<and> \<not> feq (radius_sp s) (Finite (- 1)) \<and> single_value (radius_sp s)
    \<and> finite_single (x_sp (center_sp s)) \<and> finite_single (y_sp (center_sp s))
    \<and> finite_single (z_sp (center_sp s))
    \<and> pure_translation_sp t v
    \<and> (apply_mat = vec3f_times_mat4f_sp \<or> apply_mat = vec3f_times_mat4f_w_sp) \<longrightarrow>
      radius_sp (ortho_transform_sp apply_mat s t) = radius_sp s \<and>
      center_sp (ortho_transform_sp apply_mat s t) =
        \<lparr>x_sp = fadd (x_sp (center_sp s)) (x_sp v),
         y_sp = fadd (y_sp (center_sp s)) (y_sp v),
         z_sp = fadd (z_sp (center_sp s)) (z_sp v)\<rparr>)"
proof (intro conjI impI)
  show "ortho_transform_sp apply_mat s t = s" if "maximized_sp s \<or> feq (radius_sp s) (Finite (- 1))"
    using that by (auto simp: ortho_transform_sp_def)
next
  assume h: "\<not> maximized_sp s \<and> \<not> feq (radius_sp s) (Finite (- 1)) \<and> single_value (radius_sp s)
    \<and> finite_single (x_sp (center_sp s)) \<and> finite_single (y_sp (center_sp s))
    \<and> finite_single (z_sp (center_sp s))
    \<and> pure_translation_sp t v
    \<and> (apply_mat = vec3f_times_mat4f_sp \<or> apply_mat = vec3f_times_mat4f_w_sp)"
  then have t: "t 0 0 = Finite 1" "t 0 1 = Finite 0" "t 0 2 = Finite 0" "t 0 3 = Finite 0"
    "t 1 0 = Finite 0" "t 1 1 = Finite 1" "t 1 2 = Finite 0" "t 1 3 = Finite 0"
    "t 2 0 = Finite 0" "t 2 1 = Finite 0" "t 2 2 = Finite 1" "t 2 3 = Finite 0"
    "t 3 0 = x_sp v" "t 3 1 = y_sp v" "t 3 2 = z_sp v" "t 3 3 = Finite 1"
    unfolding pure_translation_sp_def by blast+
  have c: "finite_single (x_sp (center_sp s))" "finite_single (y_sp (center_sp s))"
    "finite_single (z_sp (center_sp s))" using h by blast+
  have len: "vec3f_length_sp \<lparr>x_sp = t 0 0, y_sp = t 1 0, z_sp = t 2 0\<rparr> = Finite 1"
    unfolding t by (rule unit_length_sp)
  have "radius_sp (ortho_transform_sp apply_mat s t) = fmul (radius_sp s) (Finite 1)"
    using h by (simp add: ortho_transform_sp_def Let_def len del: One_nat_def)
  then show "radius_sp (ortho_transform_sp apply_mat s t) = radius_sp s"
    using h by (simp add: fmul_one)
  let ?c = "\<lparr>x_sp = fadd (x_sp (center_sp s)) (x_sp v),
         y_sp = fadd (y_sp (center_sp s)) (y_sp v),
         z_sp = fadd (z_sp (center_sp s)) (z_sp v)\<rparr>"
  have a: "vec3f_times_mat4f_sp (center_sp s) t = ?c"
    unfolding vec3f_times_mat4f_sp_def t
    by (simp only: translate_coordinate [OF c] translate_coordinate2 [OF c] translate_coordinate3 [OF c])
  have w: "vec3f_times_mat4f_w_sp (center_sp s) t = ?c"
    unfolding vec3f_times_mat4f_w_sp_def a Let_def unfolding t translate_w [OF c]
    by (simp add: fdiv_one single_value_fadd)
  have "center_sp (ortho_transform_sp apply_mat s t) = apply_mat (center_sp s) t"
    using h by (simp add: ortho_transform_sp_def Let_def)
  then show "center_sp (ortho_transform_sp apply_mat s t) = ?c"
    using h a w by auto
qed

theorem ortho_transform_sp_pure_translation_witness:
  "ortho_transform_sp vec3f_times_mat4f_sp (maximize_sp bounding_sphere_init_sp)
       (\<lambda>i j. if i = 3 then [Finite 1, Finite 2, Finite 3, Finite 1] ! j
               else if i = j then Finite 1 else Finite 0)
     = maximize_sp bounding_sphere_init_sp
   \<and> pure_translation_sp
       (\<lambda>i j. if i = 3 then [Finite 1, Finite 2, Finite 3, Finite 1] ! j
               else if i = j then Finite 1 else Finite 0)
       \<lparr>x_sp = Finite 1, y_sp = Finite 2, z_sp = Finite 3\<rparr>
   \<and> radius_sp (ortho_transform_sp vec3f_times_mat4f_w_sp
       \<lparr>center_sp = \<lparr>x_sp = Finite 16777216, y_sp = Finite 1, z_sp = Finite 0\<rparr>, radius_sp = Finite 2\<rparr>
       (\<lambda>i j. if i = 3 then [Finite 1, Finite 2, Finite 3, Finite 1] ! j
               else if i = j then Finite 1 else Finite 0)) = Finite 2
   \<and> center_sp (ortho_transform_sp vec3f_times_mat4f_w_sp
       \<lparr>center_sp = \<lparr>x_sp = Finite 16777216, y_sp = Finite 1, z_sp = Finite 0\<rparr>, radius_sp = Finite 2\<rparr>
       (\<lambda>i j. if i = 3 then [Finite 1, Finite 2, Finite 3, Finite 1] ! j
               else if i = j then Finite 1 else Finite 0))
     = \<lparr>x_sp = Finite 16777216, y_sp = Finite 3, z_sp = Finite 3\<rparr>"
proof -
  let ?t = "\<lambda>(i::nat) (j::nat). if i = 3 then [Finite 1, Finite 2, Finite 3, Finite 1] ! j
               else if i = j then Finite 1 else Finite 0"
  let ?v = "\<lparr>x_sp = Finite 1, y_sp = Finite 2, z_sp = Finite 3\<rparr>"
  let ?s = "\<lparr>center_sp = \<lparr>x_sp = Finite 16777216, y_sp = Finite 1, z_sp = Finite 0\<rparr>, radius_sp = Finite 2\<rparr>"
  let ?m = "maximize_sp bounding_sphere_init_sp"
  have p: "pure_translation_sp ?t ?v" by (simp add: pure_translation_sp_def)
  have n: "\<not> maximized_sp ?s" by (simp add: sphere_sp_not_maximized)
  have a: "ortho_transform_sp vec3f_times_mat4f_sp ?m ?t = ?m"
    using ortho_transform_sp_pure_translation [of ?m vec3f_times_mat4f_sp ?t] maximized_sp_maximize
    by simp
  have b: "radius_sp (ortho_transform_sp vec3f_times_mat4f_w_sp ?s ?t) = Finite 2
     \<and> center_sp (ortho_transform_sp vec3f_times_mat4f_w_sp ?s ?t)
         = \<lparr>x_sp = Finite 16777216, y_sp = Finite 3, z_sp = Finite 3\<rparr>"
    using ortho_transform_sp_pure_translation [of ?s vec3f_times_mat4f_w_sp ?t ?v] p n
    by (simp add: single_values single_values2)
  show ?thesis using a b p by simp
qed

text \<open>
  The claim as stated fails. The center \<open>(2^24, 0, 0)\<close> translated by \<open>(1, 0, 0)\<close>
  would have to become \<open>(2^24 + 1, 0, 0)\<close>, which no float holds; the sum rounds to
  \<open>2^24\<close> and the sphere stays where it is, with either form of the operator. A center
  with an infinite coordinate is not shifted by the translation either: the products of
  the infinity with the zeros of the matrix make its other coordinates NaN.
\<close>

theorem ortho_transform_sp_center_stays:
  "pure_translation_sp
       (\<lambda>i j. if i = 3 then [Finite 1, Finite 0, Finite 0, Finite 1] ! j
               else if i = j then Finite 1 else Finite 0)
       \<lparr>x_sp = Finite 1, y_sp = Finite 0, z_sp = Finite 0\<rparr>
   \<and> ortho_transform_sp vec3f_times_mat4f_sp
       \<lparr>center_sp = \<lparr>x_sp = Finite 16777216, y_sp = Finite 0, z_sp = Finite 0\<rparr>, radius_sp = Finite 1\<rparr>
       (\<lambda>i j. if i = 3 then [Finite 1, Finite 0, Finite 0, Finite 1] ! j
               else if i = j then Finite 1 else Finite 0)
     = \<lparr>center_sp = \<lparr>x_sp = Finite 16777216, y_sp = Finite 0, z_sp = Finite 0\<rparr>, radius_sp = Finite 1\<rparr>
   \<and> ortho_transform_sp vec3f_times_mat4f_w_sp
       \<lparr>center_sp = \<lparr>x_sp = Finite 16777216, y_sp = Finite 0, z_sp = Finite 0\<rparr>, radius_sp = Finite 1\<rparr>
       (\<lambda>i j. if i = 3 then [Finite 1, Finite 0, Finite 0, Finite 1] ! j
               else if i = j then Finite 1 else Finite 0)
     = \<lparr>center_sp = \<lparr>x_sp = Finite 16777216, y_sp = Finite 0, z_sp = Finite 0\<rparr>, radius_sp = Finite 1\<rparr>
   \<and> single (16777216 + 1) \<noteq> Finite (16777216 + 1)
   \<and> y_sp (center_sp (ortho_transform_sp vec3f_times_mat4f_sp
       \<lparr>center_sp = \<lparr>x_sp = PlusInf, y_sp = Finite 0, z_sp = Finite 0\<rparr>, radius_sp = Finite 1\<rparr>
       (\<lambda>i j. if i = 3 then [Finite 1, Finite 0, Finite 0, Finite 1] ! j
               else if i = j then Finite 1 else Finite 0))) = NaN"
proof -
  let ?t = "\<lambda>(i::nat) (j::nat). if i = 3 then [Finite 1, Finite 0, Finite 0, Finite 1] ! j
               else if i = j then Finite 1 else Finite 0"
  let ?s = "\<lparr>center_sp = \<lparr>x_sp = Finite 16777216, y_sp = Finite 0, z_sp = Finite 0\<rparr>, radius_sp = Finite 1\<rparr>"
  have n: "\<not> maximized_sp ?s" by (simp add: sphere_sp_not_maximized)
  have l: "vec3f_length_sp \<lparr>x_sp = ?t 0 0, y_sp = ?t 1 0, z_sp = ?t 2 0\<rparr> = Finite 1"
    using unit_length_sp by simp
  have a: "vec3f_times_mat4f_sp (center_sp ?s) ?t = center_sp ?s"
    by (simp add: vec3f_times_mat4f_sp_def single_values)
  have w: "vec3f_times_mat4f_w_sp (center_sp ?s) ?t = center_sp ?s"
    unfolding vec3f_times_mat4f_w_sp_def a Let_def by (simp add: single_values)
  have "ortho_transform_sp vec3f_times_mat4f_sp ?s ?t = ?s"
    using n l a by (simp add: ortho_transform_sp_def Let_def single_values del: One_nat_def)
  moreover have "ortho_transform_sp vec3f_times_mat4f_w_sp ?s ?t = ?s"
    using n l w by (simp add: ortho_transform_sp_def Let_def single_values del: One_nat_def)
  moreover have "y_sp (center_sp (ortho_transform_sp vec3f_times_mat4f_sp
       \<lparr>center_sp = \<lparr>x_sp = PlusInf, y_sp = Finite 0, z_sp = Finite 0\<rparr>, radius_sp = Finite 1\<rparr> ?t)) = NaN"
    by (simp add: ortho_transform_sp_def maximized_sp_def float_max_def Let_def
        vec3f_times_mat4f_sp_def)
  ultimately show ?thesis by (simp add: pure_translation_sp_def single_values)
qed

end
